theory Spec2Isabelle
  imports Complex_Main
begin

section \<open>Values, errors and arrays\<close>

text \<open>
  The diagnostic of \<^verbatim>\<open>om4labs/diags/moc/moc.py\<close> works on float64 arrays. The
  operations it applies to them (comparison, minimum, maximum, absolute value, negation,
  multiplication by zero) are exact on finite doubles, so finite values are modelled as
  reals. A value read from a file may be missing: \<open>NaN\<close>. Coordinate axes and grid
  geometry, for which the code has no missing-value handling, are arrays of reals;
  infinities are not modelled.
\<close>

datatype npfloat = NaN | Num real

fun isnan :: "npfloat \<Rightarrow> bool" where
  "isnan NaN = True"
| "isnan (Num x) = False"

text \<open>Every raise of the source and of the numpy and xarray calls it makes is a value.\<close>

datatype error =
    AssertionError
  | KeyError
  | IndexError
  | ValueError
  | AxisError
  | TypeError
  | CollaboratorError

definition ebind :: "error + 'a \<Rightarrow> ('a \<Rightarrow> error + 'b) \<Rightarrow> error + 'b" where
  "ebind m f = (case m of Inl e \<Rightarrow> Inl e | Inr x \<Rightarrow> f x)"

text \<open>
  A numpy array: its shape and its elements by index. The rank is dynamic, as in numpy;
  only the elements whose index lies within the shape belong to the array.
\<close>

record 'a ndarray =
  shape :: "nat list"
  item :: "nat list \<Rightarrow> 'a"

definition ndim :: "'a ndarray \<Rightarrow> nat" where
  "ndim a = length (shape a)"

definition in_bounds :: "nat list \<Rightarrow> nat list \<Rightarrow> bool" where
  "in_bounds sh idx = (length idx = length sh \<and> list_all2 (\<lambda>i n. i < n) idx sh)"

text \<open>All indices of a shape, in row-major (C) order: the order of \<^verbatim>\<open>ravel\<close>.\<close>

fun indices :: "nat list \<Rightarrow> nat list list" where
  "indices [] = [[]]"
| "indices (n # ns) = concat (map (\<lambda>i. map ((#) i) (indices ns)) [0..<n])"

definition ravel :: "'a ndarray \<Rightarrow> 'a list" where
  "ravel a = map (item a) (indices (shape a))"

definition map_nd :: "('a \<Rightarrow> 'b) \<Rightarrow> 'a ndarray \<Rightarrow> 'b ndarray" where
  "map_nd f a = \<lparr>shape = shape a, item = (\<lambda>idx. f (item a idx))\<rparr>"

text \<open>\<^verbatim>\<open>np.array\<close> of a list and of a list of rows.\<close>

definition array1 :: "'a list \<Rightarrow> 'a ndarray" where
  "array1 xs = \<lparr>shape = [length xs], item = (\<lambda>idx. xs ! (idx ! 0))\<rparr>"

definition array2 :: "'a list list \<Rightarrow> 'a ndarray" where
  "array2 xss = \<lparr>shape = [length xss, (case xss of [] \<Rightarrow> 0 | r # _ \<Rightarrow> length r)],
                 item = (\<lambda>idx. xss ! (idx ! 0) ! (idx ! 1))\<rparr>"

definition array3 :: "'a list list list \<Rightarrow> 'a ndarray" where
  "array3 xsss = \<lparr>shape = [length xsss,
                            (case xsss of [] \<Rightarrow> 0 | p # _ \<Rightarrow> length p),
                            (case xsss of [] \<Rightarrow> 0 | p # _ \<Rightarrow> (case p of [] \<Rightarrow> 0 | r # _ \<Rightarrow> length r))],
                  item = (\<lambda>idx. xsss ! (idx ! 0) ! (idx ! 1) ! (idx ! 2))\<rparr>"

subsection \<open>numpy broadcasting\<close>

text \<open>
  Shapes are aligned at their trailing dimensions; a dimension of size 1 stretches.
  \<open>bshape_rev\<close> works on the reversed shapes.
\<close>

fun bshape_rev :: "nat list \<Rightarrow> nat list \<Rightarrow> nat list option" where
  "bshape_rev [] ns = Some ns"
| "bshape_rev ms [] = Some ms"
| "bshape_rev (m # ms) (n # ns) =
     (if m = n \<or> n = 1 then map_option ((#) m) (bshape_rev ms ns)
      else if m = 1 then map_option ((#) n) (bshape_rev ms ns)
      else None)"

definition broadcast_shapes :: "nat list \<Rightarrow> nat list \<Rightarrow> nat list option" where
  "broadcast_shapes s t = map_option rev (bshape_rev (rev s) (rev t))"

text \<open>The index into an operand of shape \<open>sh\<close> for the index \<open>idx\<close> of the broadcast result.\<close>

definition bidx :: "nat list \<Rightarrow> nat list \<Rightarrow> nat list" where
  "bidx sh idx = map2 (\<lambda>n i. if n = 1 then 0 else i) sh (drop (length idx - length sh) idx)"

definition np_binop :: "('a \<Rightarrow> 'b \<Rightarrow> 'c) \<Rightarrow> 'a ndarray \<Rightarrow> 'b ndarray \<Rightarrow> error + 'c ndarray" where
  "np_binop f a b =
     (case broadcast_shapes (shape a) (shape b) of
        None \<Rightarrow> Inl ValueError
      | Some s \<Rightarrow> Inr \<lparr>shape = s,
                       item = (\<lambda>idx. f (item a (bidx (shape a) idx)) (item b (bidx (shape b) idx)))\<rparr>)"

subsection \<open>Reductions over the last axis\<close>

text \<open>
  \<^verbatim>\<open>a.max(axis=-1)\<close> and \<^verbatim>\<open>a.min(axis=-1)\<close>: a 0-d array has no axis, and an
  empty axis has no maximum.
\<close>

definition reduce_last :: "('a list \<Rightarrow> 'a) \<Rightarrow> 'a ndarray \<Rightarrow> error + 'a ndarray" where
  "reduce_last r a =
     (if shape a = [] then Inl AxisError
      else if last (shape a) = 0 then Inl ValueError
      else Inr \<lparr>shape = butlast (shape a),
                item = (\<lambda>idx. r (map (\<lambda>i. item a (idx @ [i])) [0..<last (shape a)]))\<rparr>)"

definition max_list :: "real list \<Rightarrow> real" where
  "max_list xs = foldl max (hd xs) (tl xs)"

definition min_list :: "real list \<Rightarrow> real" where
  "min_list xs = foldl min (hd xs) (tl xs)"

definition max_last :: "real ndarray \<Rightarrow> error + real ndarray" where
  "max_last a = reduce_last max_list a"

definition min_last :: "real ndarray \<Rightarrow> error + real ndarray" where
  "min_last a = reduce_last min_list a"

section \<open>Labelled arrays (xarray)\<close>

text \<open>
  An \<^verbatim>\<open>xarray.DataArray\<close>: an array with one name for each of its dimensions. The
  operations below find dimensions by name, as xarray does.
\<close>

record 'a xarr =
  dims :: "string list"
  vals :: "'a ndarray"

fun index_of :: "'a list \<Rightarrow> 'a \<Rightarrow> nat" where
  "index_of [] y = 0"
| "index_of (x # xs) y = (if x = y then 0 else Suc (index_of xs y))"

definition dim_size :: "'a xarr \<Rightarrow> string \<Rightarrow> nat" where
  "dim_size x d = shape (vals x) ! index_of (dims x) d"

text \<open>
  \<open>pick all ds idx\<close>: from an index \<open>idx\<close> over the dimensions \<open>all\<close>, the index over
  the dimensions \<open>ds\<close>.
\<close>

definition pick :: "string list \<Rightarrow> string list \<Rightarrow> nat list \<Rightarrow> nat list" where
  "pick all ds idx = map (\<lambda>d. idx ! index_of all d) ds"

text \<open>\<^verbatim>\<open>xr.DataArray(values, dims=...)\<close>: one name for each dimension of the values.\<close>

definition DataArray :: "'a ndarray \<Rightarrow> string list \<Rightarrow> error + 'a xarr" where
  "DataArray v ds =
     (if length (shape v) = length ds then Inr \<lparr>dims = ds, vals = v\<rparr> else Inl ValueError)"

definition union_dims :: "string list \<Rightarrow> string list \<Rightarrow> string list" where
  "union_dims ds es = ds @ filter (\<lambda>d. d \<notin> set ds) es"

definition sizes_agree :: "'a xarr \<Rightarrow> 'b xarr \<Rightarrow> bool" where
  "sizes_agree x y = list_all (\<lambda>d. d \<in> set (dims y) \<longrightarrow> dim_size x d = dim_size y d) (dims x)"

definition union_shape :: "'a xarr \<Rightarrow> 'b xarr \<Rightarrow> nat list" where
  "union_shape x y =
     map (\<lambda>d. if d \<in> set (dims x) then dim_size x d else dim_size y d)
         (union_dims (dims x) (dims y))"

text \<open>
  \<^verbatim>\<open>xr.broadcast(x, y)[0]\<close>: \<open>x\<close> over the dimensions of both, in order of first
  appearance; a dimension of two sizes is an error.
\<close>

definition xr_broadcast :: "'a xarr \<Rightarrow> 'b xarr \<Rightarrow> error + 'a xarr" where
  "xr_broadcast x y =
     (if \<not> sizes_agree x y then Inl ValueError
      else Inr \<lparr>dims = union_dims (dims x) (dims y),
                vals = \<lparr>shape = union_shape x y,
                         item = (\<lambda>idx. item (vals x)
                                   (pick (union_dims (dims x) (dims y)) (dims x) idx))\<rparr>\<rparr>)"

text \<open>An elementwise binary operation of two labelled arrays, broadcast by name.\<close>

definition xr_binop :: "('a \<Rightarrow> 'b \<Rightarrow> 'c) \<Rightarrow> 'a xarr \<Rightarrow> 'b xarr \<Rightarrow> error + 'c xarr" where
  "xr_binop f x y =
     (if \<not> sizes_agree x y then Inl ValueError
      else Inr \<lparr>dims = union_dims (dims x) (dims y),
                vals = \<lparr>shape = union_shape x y,
                         item = (\<lambda>idx.
                            f (item (vals x) (pick (union_dims (dims x) (dims y)) (dims x) idx))
                              (item (vals y) (pick (union_dims (dims x) (dims y)) (dims y) idx)))\<rparr>\<rparr>)"

definition xr_map :: "('a \<Rightarrow> 'b) \<Rightarrow> 'a xarr \<Rightarrow> 'b xarr" where
  "xr_map f x = \<lparr>dims = dims x, vals = map_nd f (vals x)\<rparr>"

text \<open>\<^verbatim>\<open>x.transpose(*names)\<close>: the names must be the dimensions of \<open>x\<close>, reordered.\<close>

definition xr_transpose :: "'a xarr \<Rightarrow> string list \<Rightarrow> error + 'a xarr" where
  "xr_transpose x names =
     (if distinct names \<and> list_all (\<lambda>d. d \<in> set (dims x)) names \<and> length names = length (dims x)
      then Inr \<lparr>dims = names,
                vals = \<lparr>shape = map (dim_size x) names,
                         item = (\<lambda>idx. item (vals x) (pick names (dims x) idx))\<rparr>\<rparr>
      else Inl ValueError)"

text \<open>\<^verbatim>\<open>x.transpose(*names, ...)\<close>: the named dimensions first, the others after them.\<close>

definition xr_transpose_ellipsis :: "'a xarr \<Rightarrow> string list \<Rightarrow> error + 'a xarr" where
  "xr_transpose_ellipsis x names =
     xr_transpose x (names @ filter (\<lambda>d. d \<notin> set names) (dims x))"

text \<open>
  Along the axis of a concatenation, the position \<open>i\<close> lies in one of the parts:
  \<open>locate\<close> gives the part and the position within it.
\<close>

fun locate :: "nat list \<Rightarrow> nat \<Rightarrow> nat \<times> nat" where
  "locate [] i = (0, i)"
| "locate (n # ns) i =
     (if i < n then (0, i) else (case locate ns (i - n) of (k, j) \<Rightarrow> (Suc k, j)))"

text \<open>
  \<^verbatim>\<open>xr.concat(xs, dim=d)\<close>. The result has the dimensions of all the arrays, in the
  order of their first appearance, with the name \<open>d\<close> in front if none of them has
  it. Each array is placed by the names of its dimensions, whatever their order; it
  takes one position along \<open>d\<close> if it has no such dimension, and is repeated along
  the dimensions it lacks. A dimension that has two sizes among the arrays, other than
  \<open>d\<close>, is an error. The arrays carry no coordinate labels here: they are joined
  by position, as xarray joins arrays whose labels agree.
\<close>

definition all_dims :: "'a xarr list \<Rightarrow> string list" where
  "all_dims xs = foldl union_dims [] (map dims xs)"

definition concat_dims :: "'a xarr list \<Rightarrow> string \<Rightarrow> string list" where
  "concat_dims xs d = (if d \<in> set (all_dims xs) then all_dims xs else d # all_dims xs)"

definition concat_len :: "string \<Rightarrow> 'a xarr \<Rightarrow> nat" where
  "concat_len d x = (if d \<in> set (dims x) then dim_size x d else 1)"

definition size_among :: "'a xarr list \<Rightarrow> string \<Rightarrow> nat" where
  "size_among xs e =
     (case filter (\<lambda>x. e \<in> set (dims x)) xs of [] \<Rightarrow> 1 | x # _ \<Rightarrow> dim_size x e)"

definition concat_sizes_agree :: "'a xarr list \<Rightarrow> string \<Rightarrow> bool" where
  "concat_sizes_agree xs d =
     list_all (\<lambda>x. list_all (\<lambda>e. e = d \<or> dim_size x e = size_among xs e) (dims x)) xs"

definition xr_concat :: "'a xarr list \<Rightarrow> string \<Rightarrow> error + 'a xarr" where
  "xr_concat xs d =
     (if xs = [] then Inl ValueError
      else if \<not> concat_sizes_agree xs d then Inl ValueError
      else Inr \<lparr>dims = concat_dims xs d,
                vals = \<lparr>shape = map (\<lambda>e. if e = d then sum_list (map (concat_len d) xs)
                                          else size_among xs e) (concat_dims xs d),
                         item = (\<lambda>idx.
                            case locate (map (concat_len d) xs)
                                   (idx ! index_of (concat_dims xs d) d) of
                              (k, j) \<Rightarrow>
                                item (vals (xs ! k))
                                  (map (\<lambda>e. if e = d then j
                                            else idx ! index_of (concat_dims xs d) e)
                                     (dims (xs ! k))))\<rparr>\<rparr>)"

text \<open>\<^verbatim>\<open>x.isel(d=i)\<close>: the slice at position \<open>i\<close> of the dimension \<open>d\<close>.\<close>

definition insert_at :: "nat \<Rightarrow> 'a \<Rightarrow> 'a list \<Rightarrow> 'a list" where
  "insert_at p v xs = take p xs @ v # drop p xs"

definition remove_at :: "nat \<Rightarrow> 'a list \<Rightarrow> 'a list" where
  "remove_at p xs = take p xs @ drop (Suc p) xs"

definition isel :: "'a xarr \<Rightarrow> string \<Rightarrow> nat \<Rightarrow> error + 'a xarr" where
  "isel x d i =
     (if d \<notin> set (dims x) then Inl ValueError
      else if dim_size x d \<le> i then Inl IndexError
      else Inr \<lparr>dims = remove_at (index_of (dims x) d) (dims x),
                vals = \<lparr>shape = remove_at (index_of (dims x) d) (shape (vals x)),
                         item = (\<lambda>idx. item (vals x) (insert_at (index_of (dims x) d) i idx))\<rparr>\<rparr>)"

text \<open>
  \<^verbatim>\<open>x.to_masked_array()\<close> masks the missing values. A masked element has no value:
  \<open>None\<close>. The unmasked elements of the result are never NaN.
\<close>

fun mask_nan :: "npfloat \<Rightarrow> real option" where
  "mask_nan NaN = None"
| "mask_nan (Num x) = Some x"

definition to_masked_array :: "npfloat xarr \<Rightarrow> real option ndarray" where
  "to_masked_array x = map_nd mask_nan (vals x)"

section \<open>The data\<close>

text \<open>A Python value as the \<^verbatim>\<open>dates\<close> attribute and argument can hold it.\<close>

datatype pyval = PyNone | PyTuple "int list" | PyList "int list" | PyStr string

text \<open>
  The merged input files. \<open>ds_dims\<close> is \<^verbatim>\<open>ds.dims\<close>, the dimensions with their
  sizes; the transport fields are data variables; the vertical interface positions and
  \<^verbatim>\<open>yh\<close> are dimension coordinates, each a list of positions along the dimension of
  its name, where the files have them.
\<close>

type_synonym sizes = "(string \<times> nat) list"

record in_dataset =
  ds_dims :: sizes
  ds_data_vars :: "string \<Rightarrow> npfloat xarr option"
  ds_coords :: "string \<Rightarrow> real list option"

definition getitem :: "('k \<Rightarrow> 'v option) \<Rightarrow> 'k \<Rightarrow> error + 'v" where
  "getitem m k = (case m k of None \<Rightarrow> Inl KeyError | Some v \<Rightarrow> Inr v)"

text \<open>The horizontal grid of the model, from \<^verbatim>\<open>horizontal_grid\<close>.\<close>

record hgrid =
  g_geolon :: "real ndarray"
  g_geolat :: "real ndarray"
  g_basin :: "real ndarray"

record dictArgs =
  infile :: string
  outdir :: string
  label :: "string option"
  interactive :: bool

text \<open>
  The dataset that \<^verbatim>\<open>read\<close> assembles; \<open>iface\<close> is the variable stored under the
  name of the interface coordinate, \<open>layer\<close>, \<open>interface\<close> and \<open>dates\<close> are its
  attributes.
\<close>

record dataset =
  umo :: "npfloat xarr"
  vmo :: "npfloat xarr"
  iface :: "real xarr"
  geolon :: "real xarr"
  geolat :: "real xarr"
  depth :: "real xarr"
  zmod :: "real xarr"
  wet :: "real xarr"
  basin_masks :: "real xarr"
  yh :: "real list"
  layer :: string
  interface :: string
  dates :: pyval

text \<open>
  The functions of \<^verbatim>\<open>om4labs.om4common\<close>, xarray's file reader and the overturning
  library are collaborators: what they return is a parameter of the model, and each of
  them may fail.
\<close>

record collaborators =
  open_mfdataset :: "string \<Rightarrow> error + in_dataset"
  horizontal_grid :: "dictArgs \<Rightarrow> error + hgrid"
  read_topography :: "dictArgs \<Rightarrow> in_dataset \<Rightarrow> error + npfloat xarr"
  generate_basin_masks :: "real ndarray \<Rightarrow> string \<Rightarrow> error + real ndarray"
  date_range :: "in_dataset \<Rightarrow> error + pyval"

text \<open>
  \<^verbatim>\<open>ds[name]\<close> for a dimension coordinate: one dimension, of the coordinate's name.
  For a dimension that has no coordinate variable xarray gives the positions
  \<open>0, 1, ...\<close>; a name that is no dimension either is a key error.
\<close>

definition coord_var :: "string \<Rightarrow> real list \<Rightarrow> real xarr" where
  "coord_var name xs = \<lparr>dims = [name], vals = array1 xs\<rparr>"

definition getcoord :: "in_dataset \<Rightarrow> string \<Rightarrow> error + real xarr" where
  "getcoord ds name =
     (case ds_coords ds name of
        Some xs \<Rightarrow> Inr (coord_var name xs)
      | None \<Rightarrow>
          (case map_of (ds_dims ds) name of
             Some n \<Rightarrow> Inr (coord_var name (map real [0..<n]))
           | None \<Rightarrow> Inl KeyError))"

text \<open>
  The sizes of the dimensions of a dataset. Storing a variable whose dimension has
  another size than the dataset already knows is an error. The variables taken from the
  input files bring the sizes they have there.
\<close>

definition sizes_of :: "sizes \<Rightarrow> string list \<Rightarrow> sizes" where
  "sizes_of szs ds = filter (\<lambda>(d, n). d \<in> set ds) szs"

definition var_sizes :: "'a xarr \<Rightarrow> sizes" where
  "var_sizes x = zip (dims x) (shape (vals x))"

definition assign :: "sizes \<Rightarrow> 'a xarr \<Rightarrow> error + sizes" where
  "assign szs x =
     (if list_ex (\<lambda>(d, n). case map_of szs d of None \<Rightarrow> False | Some m \<Rightarrow> m \<noteq> n) (var_sizes x)
      then Inl ValueError
      else Inr (szs @ filter (\<lambda>(d, n). map_of szs d = None) (var_sizes x)))"

text \<open>A list comprehension whose element expression may raise.\<close>

fun emap :: "('a \<Rightarrow> error + 'b) \<Rightarrow> 'a list \<Rightarrow> error + 'b list" where
  "emap f [] = Inr []"
| "emap f (x # xs) = ebind (f x) (\<lambda>y. ebind (emap f xs) (\<lambda>ys. Inr (y # ys)))"

section \<open>read\<close>

text \<open>
  \<^verbatim>\<open>layer = "z_l" if "z_l" in ds.dims else "rho2_l" if "rho2_l" in ds.dims else None\<close>
  and the corresponding line for the interface.
\<close>

definition choose_layer :: "string list \<Rightarrow> string option" where
  "choose_layer ds =
     (if ''z_l'' \<in> set ds then Some ''z_l''
      else if ''rho2_l'' \<in> set ds then Some ''rho2_l''
      else None)"

definition choose_interface :: "string \<Rightarrow> string option" where
  "choose_interface l =
     (if l = ''z_l'' then Some ''z_i''
      else if l = ''rho2_l'' then Some ''rho2_i''
      else None)"

text \<open>\<^verbatim>\<open>assert layer is not None\<close>.\<close>

definition assert_not_none :: "'a option \<Rightarrow> error + 'a" where
  "assert_not_none v = (case v of None \<Rightarrow> Inl AssertionError | Some x \<Rightarrow> Inr x)"

text \<open>
  \<^verbatim>\<open>np.where(np.isnan(_depth.to_masked_array()), 0.0, _depth)\<close> and
  \<^verbatim>\<open>np.where(np.isnan(_depth.to_masked_array()), 0.0, 1.0)\<close>, element by element:
  the condition holds exactly at the missing values, so the first result has none left.
\<close>

definition nan_to_zero :: "npfloat \<Rightarrow> real" where
  "nan_to_zero v = (case v of NaN \<Rightarrow> 0 | Num x \<Rightarrow> x)"

definition nan_to_wet :: "npfloat \<Rightarrow> real" where
  "nan_to_wet v = (if isnan v then 0 else 1)"

text \<open>
  The three lines that replicate \<^verbatim>\<open>get_z\<close>: the interface positions broadcast over
  the horizontal grid, the minimum with the depth, negated, and the dimensions put in
  the order interface, yh, xh.
\<close>

definition compute_zmod :: "real xarr \<Rightarrow> real xarr \<Rightarrow> real xarr \<Rightarrow> string \<Rightarrow> error + real xarr" where
  "compute_zmod zi glat dep ifname =
     ebind (xr_broadcast zi (xr_map (\<lambda>_. 1::real) glat)) (\<lambda>zb.
     ebind (xr_binop min dep (xr_map abs zb)) (\<lambda>zm.
     xr_transpose (xr_map (\<lambda>x. x * - 1) zm) [ifname, ''yh'', ''xh'']))"

definition read_basin_masks :: "collaborators \<Rightarrow> real ndarray \<Rightarrow> error + real xarr" where
  "read_basin_masks c basin_code =
     ebind (emap (generate_basin_masks c basin_code) [''atlantic_arctic'', ''indo_pacific'']) (\<lambda>ms.
     ebind (emap (\<lambda>x. DataArray x [''yh'', ''xh'']) ms) (\<lambda>bs.
     xr_concat bs ''basin''))"

text \<open>
  \<^verbatim>\<open>dset.yh\<close>: the coordinate that came with the transport fields, or the positions
  \<open>0, 1, ...\<close> of a dimension without coordinate.
\<close>

definition yh_coord :: "in_dataset \<Rightarrow> real xarr \<Rightarrow> real list" where
  "yh_coord ds glat =
     (case ds_coords ds ''yh'' of
        Some xs \<Rightarrow> xs
      | None \<Rightarrow> map real [0..<dim_size glat ''yh''])"

definition read :: "collaborators \<Rightarrow> dictArgs \<Rightarrow> string \<Rightarrow> string \<Rightarrow> error + dataset" where
  "read c args vcomp ucomp =
     ebind (open_mfdataset c (infile args)) (\<lambda>ds.
     ebind (getitem (ds_data_vars ds) ucomp) (\<lambda>u.
     ebind (getitem (ds_data_vars ds) vcomp) (\<lambda>v.
     ebind (assert_not_none (choose_layer (map fst (ds_dims ds)))) (\<lambda>lay.
     ebind (getitem choose_interface lay) (\<lambda>ifname.
     ebind (getcoord ds ifname) (\<lambda>zi.
     ebind (horizontal_grid c args) (\<lambda>dsT.
     ebind (DataArray (g_geolon dsT) [''yh'', ''xh'']) (\<lambda>glon.
     ebind (assign (sizes_of (ds_dims ds) (dims u @ dims v @ dims zi)) glon) (\<lambda>s1.
     ebind (DataArray (g_geolat dsT) [''yh'', ''xh'']) (\<lambda>glat.
     ebind (assign s1 glat) (\<lambda>s2.
     ebind (read_topography c args ds) (\<lambda>topo.
     ebind (DataArray (map_nd nan_to_zero (vals topo)) [''yh'', ''xh'']) (\<lambda>dep.
     ebind (assign s2 dep) (\<lambda>s3.
     ebind (compute_zmod zi glat dep ifname) (\<lambda>zm.
     ebind (assign s3 zm) (\<lambda>s4.
     ebind (DataArray (map_nd nan_to_wet (vals topo)) [''yh'', ''xh'']) (\<lambda>w.
     ebind (assign s4 w) (\<lambda>s5.
     ebind (read_basin_masks c (g_basin dsT)) (\<lambda>basins.
     ebind (assign s5 basins) (\<lambda>s6.
     ebind (date_range c ds) (\<lambda>dr.
     Inr \<lparr>umo = u, vmo = v, iface = zi, geolon = glon, geolat = glat, depth = dep,
          zmod = zm, wet = w, basin_masks = basins, yh = yh_coord ds glat,
          layer = lay, interface = ifname, dates = dr\<rparr>)))))))))))))))))))))"

section \<open>calculate\<close>

text \<open>\<^verbatim>\<open>xs[i]\<close> on a tuple or list.\<close>

definition nth_err :: "'a list \<Rightarrow> nat \<Rightarrow> error + 'a" where
  "nth_err xs i = (if i < length xs then Inr (xs ! i) else Inl IndexError)"

text \<open>
  \<^verbatim>\<open>xoverturning.calcmoc(dset, basin=x, layer=..., interface=..., verbose=False)\<close> is
  the parameter \<open>calcmoc\<close>.
\<close>

definition calculate ::
  "(dataset \<Rightarrow> string \<Rightarrow> string \<Rightarrow> string \<Rightarrow> error + npfloat xarr) \<Rightarrow> dataset \<Rightarrow> error + npfloat xarr" where
  "calculate calcmoc dset =
     ebind (emap (\<lambda>x. calcmoc dset x (layer dset) (interface dset))
              [''atl-arc'', ''indopac'', ''global'']) (\<lambda>otsfn.
     ebind (xr_concat otsfn ''basin'') (\<lambda>otsfn.
     ebind (nth_err (dims otsfn) 1) (\<lambda>d1.
     ebind (nth_err (dims otsfn) 0) (\<lambda>d0.
     xr_transpose_ellipsis otsfn [d1, d0]))))"

section \<open>plot\<close>

text \<open>
  What \<^verbatim>\<open>plot\<close> draws is recorded as data: for each panel what is handed to
  \<^verbatim>\<open>contourf\<close> and \<^verbatim>\<open>pcolormesh\<close>, the labels, and the markers with their
  numbers. Colours and layout are left out. Of the drawing calls, \<^verbatim>\<open>contourf\<close>,
  \<^verbatim>\<open>contour\<close> and \<^verbatim>\<open>pcolormesh\<close> fail as matplotlib's checks of their arguments
  say; the others are taken not to fail.
\<close>

record annotation =
  mark_y :: real
  mark_z :: real
  text_value :: npfloat

record panel =
  title :: string
  contour_x :: "real ndarray"
  contour_y :: "real ndarray"
  contour_data :: "npfloat ndarray"
  levels :: "real list"
  xlim :: "(real \<times> real) option"
  shading :: "(real list \<times> real list \<times> real option ndarray) option"
  datestring :: "(int \<times> int) option"
  annotations :: "annotation list"

record figure =
  panels :: "panel list"
  suptitle :: "string option"

subsection \<open>The extrema finder\<close>

text \<open>
  \<^verbatim>\<open>a[cond]\<close> with a boolean array: the shape of \<open>cond\<close> must be the leading part of
  the shape of \<open>a\<close>; the selected elements come in row-major order.
\<close>

definition bool_index :: "'a ndarray \<Rightarrow> bool ndarray \<Rightarrow> error + 'a list" where
  "bool_index a c =
     (if length (shape c) \<le> length (shape a) \<and> shape c = take (length (shape c)) (shape a)
      then Inr (map (item a)
                  (filter (\<lambda>idx. item c (take (length (shape c)) idx)) (indices (shape a))))
      else Inl IndexError)"

text \<open>
  \<^verbatim>\<open>np.amax\<close> of a masked array: of nothing it raises, of masked elements only it is
  masked, otherwise it is the maximum of the unmasked elements.
\<close>

definition unmasked :: "real option list \<Rightarrow> real list" where
  "unmasked xs = map the (filter (\<lambda>x. x \<noteq> None) xs)"

definition ma_amax :: "real option list \<Rightarrow> error + real option" where
  "ma_amax xs =
     (if xs = [] then Inl ValueError
      else if unmasked xs = [] then Inr None
      else Inr (Some (max_list (unmasked xs))))"

text \<open>\<^verbatim>\<open>np.abs(psi - psiMax)\<close>, for one element; masked if either side is.\<close>

definition ma_absdiff :: "real option \<Rightarrow> real option \<Rightarrow> real option" where
  "ma_absdiff p q =
     (case p of None \<Rightarrow> None
      | Some a \<Rightarrow> (case q of None \<Rightarrow> None | Some b \<Rightarrow> Some \<bar>a - b\<bar>))"

text \<open>
  \<^verbatim>\<open>np.argmin\<close> of a masked array: the first position of the least unmasked element;
  position 0 when every element is masked.
\<close>

definition ma_argmin :: "real option list \<Rightarrow> nat" where
  "ma_argmin xs =
     (case filter (\<lambda>i. xs ! i \<noteq> None) [0..<length xs] of
        [] \<Rightarrow> 0
      | i0 # rest \<Rightarrow> foldl (\<lambda>b i. if the (xs ! i) < the (xs ! b) then i else b) i0 rest)"

text \<open>\<^verbatim>\<open>(j, i) = np.unravel_index(idx, psi.shape)\<close>: two indices, so two dimensions.\<close>

definition unravel_index2 :: "nat \<Rightarrow> nat list \<Rightarrow> error + nat \<times> nat" where
  "unravel_index2 idx sh =
     (case sh of
        [nr, nc] \<Rightarrow> Inr (idx div nc, idx mod nc)
      | _ \<Rightarrow> Inl ValueError)"

text \<open>\<^verbatim>\<open>a[j, i]\<close> as a number.\<close>

definition scalar_at2 :: "'a ndarray \<Rightarrow> nat \<Rightarrow> nat \<Rightarrow> error + 'a" where
  "scalar_at2 a j i =
     (case shape a of
        [nr, nc] \<Rightarrow> if j < nr \<and> i < nc then Inr (item a [j, i]) else Inl IndexError
      | _ \<Rightarrow> Inl IndexError)"

definition unmask :: "real option \<Rightarrow> npfloat" where
  "unmask p = (case p of None \<Rightarrow> NaN | Some v \<Rightarrow> Num v)"

definition findExtrema ::
  "real ndarray \<Rightarrow> real ndarray \<Rightarrow> real option ndarray \<Rightarrow> real \<Rightarrow> real \<Rightarrow> real \<Rightarrow> real
     \<Rightarrow> error + annotation" where
  "findExtrema y z psi min_lat max_lat min_depth mult =
     ebind (np_binop (\<lambda>yv zv. min_lat \<le> yv \<and> yv \<le> max_lat \<and> zv < - min_depth) y z) (\<lambda>cond.
     ebind (bool_index psi cond) (\<lambda>sel.
     ebind (ma_amax (map (map_option ((*) mult)) sel)) (\<lambda>m.
     ebind (unravel_index2
              (ma_argmin (map (\<lambda>p. ma_absdiff p (map_option ((*) mult) m)) (ravel psi)))
              (shape psi)) (\<lambda>ji.
     ebind (scalar_at2 y (fst ji) (snd ji)) (\<lambda>yv.
     ebind (scalar_at2 z (fst ji) (snd ji)) (\<lambda>zv.
     Inr \<lparr>mark_y = yv, mark_z = zv,
          text_value = unmask (item psi [fst ji, snd ji])\<rparr>))))))"

subsection \<open>The panel plotter\<close>

text \<open>\<^verbatim>\<open>np.array(np.where(psi.mask, fill, psi))\<close>.\<close>

definition fill_masked :: "npfloat \<Rightarrow> real option ndarray \<Rightarrow> npfloat ndarray" where
  "fill_masked fill psi = map_nd (\<lambda>p. case p of None \<Rightarrow> fill | Some v \<Rightarrow> Num v) psi"

text \<open>
  The label of the year range: \<^verbatim>\<open>assert isinstance(dates, tuple)\<close>, then
  \<^verbatim>\<open>dates[0]\<close> and \<^verbatim>\<open>dates[1]\<close>.
\<close>

definition date_label :: "pyval \<Rightarrow> error + (int \<times> int) option" where
  "date_label ds =
     (case ds of
        PyNone \<Rightarrow> Inr None
      | PyTuple xs \<Rightarrow> ebind (nth_err xs 0) (\<lambda>a. ebind (nth_err xs 1) (\<lambda>b. Inr (Some (a, b))))
      | _ \<Rightarrow> Inl AssertionError)"

text \<open>
  The drawing calls check their arguments. \<^verbatim>\<open>ax.contourf(y, z, psi, levels=ci, ...)\<close>
  wants a 2-D array of at least two rows and two columns, coordinates that are both 1-D
  with the lengths of its columns and rows or both 2-D of its shape (a type error
  otherwise), and at least two levels in increasing order (a value error otherwise).
  The two calls of \<^verbatim>\<open>ax.contour\<close> that follow want no more.
\<close>

definition contour_levels :: "real list \<Rightarrow> error + unit" where
  "contour_levels lv =
     (if length lv < 2 then Inl ValueError
      else if \<not> sorted_wrt (<) lv then Inl ValueError
      else Inr ())"

definition contour_args :: "'a ndarray \<Rightarrow> 'b ndarray \<Rightarrow> 'c ndarray \<Rightarrow> real list \<Rightarrow> error + unit" where
  "contour_args x y z lv =
     (if length (shape z) \<noteq> 2 then Inl TypeError
      else if shape z ! 0 < 2 \<or> shape z ! 1 < 2 then Inl TypeError
      else if length (shape x) \<noteq> length (shape y) then Inl TypeError
      else if length (shape x) = 1 then
        (if shape x ! 0 \<noteq> shape z ! 1 \<or> shape y ! 0 \<noteq> shape z ! 0 then Inl TypeError
         else contour_levels lv)
      else if length (shape x) = 2 then
        (if shape x \<noteq> shape z \<or> shape y \<noteq> shape z then Inl TypeError
         else contour_levels lv)
      else Inl TypeError)"

text \<open>
  \<^verbatim>\<open>ax.pcolormesh(X, Y, C, shading="auto")\<close> with 1-D coordinates wants a 2-D \<open>C\<close>
  with as many columns as \<open>X\<close> and rows as \<open>Y\<close> have elements, or one less of each.
\<close>

definition pcolormesh_args :: "real list \<Rightarrow> real list \<Rightarrow> 'a ndarray \<Rightarrow> error + unit" where
  "pcolormesh_args xs ys c =
     (case shape c of
        [nrows, ncols] \<Rightarrow>
          if (length xs = ncols \<and> length ys = nrows) \<or>
             (length xs = ncols + 1 \<and> length ys = nrows + 1)
          then Inr () else Inl TypeError
      | _ \<Rightarrow> Inl TypeError)"

text \<open>\<^verbatim>\<open>ax.pcolormesh(yh, -1.0 * zz, topomask, ...)\<close>, drawn when there is a topomask.\<close>

definition shade ::
  "real option ndarray option \<Rightarrow> real list option \<Rightarrow> real list option
     \<Rightarrow> error + (real list \<times> real list \<times> real option ndarray) option" where
  "shade topomask yhv zz =
     (case topomask of
        None \<Rightarrow> Inr None
      | Some t \<Rightarrow>
          (case zz of
             None \<Rightarrow> Inl TypeError
           | Some zv \<Rightarrow>
               (case yhv of
                  None \<Rightarrow> Inl TypeError
                | Some yv \<Rightarrow>
                    ebind (pcolormesh_args yv (map (\<lambda>v. - 1 * v) zv) t) (\<lambda>_.
                    Inr (Some (yv, map (\<lambda>v. - 1 * v) zv, t))))))"

definition plotPsi ::
  "real ndarray \<Rightarrow> real ndarray \<Rightarrow> real option ndarray \<Rightarrow> real list \<Rightarrow> string
     \<Rightarrow> (real \<times> real) option \<Rightarrow> real option ndarray option \<Rightarrow> real list option
     \<Rightarrow> real list option \<Rightarrow> pyval \<Rightarrow> error + panel" where
  "plotPsi y z psi ci ttl xl topomask yhv zz ds =
     ebind (Inr (if topomask \<noteq> None then fill_masked (Num 0) psi else fill_masked NaN psi)) (\<lambda>psi'.
     ebind (contour_args y z psi' ci) (\<lambda>_.
     ebind (shade topomask yhv zz) (\<lambda>sh.
     ebind (date_label ds) (\<lambda>dl.
     Inr \<lparr>title = ttl, contour_x = y, contour_y = z, contour_data = psi', levels = ci,
          xlim = xl, shading = sh, datestring = dl, annotations = []\<rparr>))))"

subsection \<open>The topography mask\<close>

text \<open>\<^verbatim>\<open>np.arange(0, 7100, 100)\<close>.\<close>

definition z_samples :: "real list" where
  "z_samples = map (\<lambda>k. 100 * real k) [0..<71]"

text \<open>
  The second result of \<^verbatim>\<open>np.meshgrid(_y, _z)\<close>: one row for each sample of \<open>_z\<close>, one
  column for each element of \<open>_y\<close>.
\<close>

definition meshgrid_zz :: "real list \<Rightarrow> real list \<Rightarrow> real ndarray" where
  "meshgrid_zz yv zv =
     \<lparr>shape = [length zv, length yv], item = (\<lambda>idx. zv ! (idx ! 0))\<rparr>"

text \<open>
  \<^verbatim>\<open>np.tile(a[None, :], (n, 1))\<close>: a new leading axis, repeated \<open>n\<close> times along the
  axis before the last.
\<close>

definition tile_rows :: "'a ndarray \<Rightarrow> nat \<Rightarrow> error + 'a ndarray" where
  "tile_rows a n =
     (if shape a = [] then Inl IndexError
      else Inr \<lparr>shape = map2 (*) (1 # shape a) (replicate (length (shape a) - 1) 1 @ [n, 1]),
                item = (\<lambda>idx. item a (tl (map2 (\<lambda>i m. i mod m) idx (1 # shape a))))\<rparr>)"

text \<open>\<^verbatim>\<open>np.ma.masked_where(cond, a)\<close>: the condition must have the shape of \<open>a\<close>.\<close>

definition masked_where :: "bool ndarray \<Rightarrow> 'a ndarray \<Rightarrow> error + 'a option ndarray" where
  "masked_where c a =
     (if shape c \<noteq> shape a then Inl IndexError
      else Inr \<lparr>shape = shape a,
                item = (\<lambda>idx. if item c idx then None else Some (item a idx))\<rparr>)"

definition create_topomask ::
  "real ndarray \<Rightarrow> real list \<Rightarrow> real xarr option
     \<Rightarrow> error + real option ndarray \<times> real list" where
  "create_topomask dep yv msk =
     ebind (case msk of
              None \<Rightarrow> Inr dep
            | Some m \<Rightarrow> np_binop (\<lambda>mv d. if mv = 1 then d else 0) (vals m) dep) (\<lambda>dep'.
     ebind (max_last dep') (\<lambda>rowmax.
     ebind (tile_rows rowmax (length z_samples)) (\<lambda>tiled.
     ebind (np_binop (\<lambda>zv t. zv < t) (meshgrid_zz yv z_samples) tiled) (\<lambda>cond.
     ebind (masked_where cond tiled) (\<lambda>topomask.
     Inr (map_nd (map_option (\<lambda>v. v * 0)) topomask, z_samples))))))"

subsection \<open>The figure\<close>

text \<open>\<^verbatim>\<open>a[:, :]\<close> needs two dimensions; \<^verbatim>\<open>a[i, j]\<close> also needs the positions to exist.\<close>

definition slice2 :: "'a ndarray \<Rightarrow> error + 'a ndarray" where
  "slice2 a = (if length (shape a) < 2 then Inl IndexError else Inr a)"

definition getitem2 :: "'a ndarray \<Rightarrow> nat \<Rightarrow> nat \<Rightarrow> error + 'a ndarray" where
  "getitem2 a i j =
     (if length (shape a) < 2 then Inl IndexError
      else if shape a ! 0 \<le> i \<or> shape a ! 1 \<le> j then Inl IndexError
      else Inr \<lparr>shape = drop 2 (shape a), item = (\<lambda>idx. item a (i # j # idx))\<rparr>)"

text \<open>
  The coordinates of the panels: \<^verbatim>\<open>z\<close>, flattened unless it is 1-D already, and
  \<^verbatim>\<open>yy = y[:, :].max(axis=-1) + 0 * z\<close>.
\<close>

definition flatten_z :: "real ndarray \<Rightarrow> error + real ndarray" where
  "flatten_z z = (if length (shape z) \<noteq> 1 then min_last z else Inr z)"

definition plot_yy :: "real ndarray \<Rightarrow> real ndarray \<Rightarrow> error + real ndarray" where
  "plot_yy y z =
     ebind (slice2 y) (\<lambda>y2.
     ebind (max_last y2) (\<lambda>ymax.
     np_binop (\<lambda>a b. a + 0 * b) ymax z))"

text \<open>
  The levels \<^verbatim>\<open>ci = m6plot.formatting.pmCI(0.0, 43.0, 3.0)\<close> are the parameter \<open>ci\<close>.
\<close>

definition plot :: "real list \<Rightarrow> dataset \<Rightarrow> npfloat xarr \<Rightarrow> string option \<Rightarrow> error + figure" where
  "plot ci dset otsfn lbl =
     ebind (isel (basin_masks dset) ''basin'' 0) (\<lambda>atlantic_arctic_mask.
     ebind (isel (basin_masks dset) ''basin'' 1) (\<lambda>indo_pacific_mask.
     ebind (flatten_z (vals (zmod dset))) (\<lambda>z.
     ebind (plot_yy (vals (geolat dset)) z) (\<lambda>yy.
     ebind (create_topomask (vals (depth dset)) (yh dset) (Some atlantic_arctic_mask)) (\<lambda>atl.
     ebind (create_topomask (vals (depth dset)) (yh dset) (Some indo_pacific_mask)) (\<lambda>ind.
     ebind (create_topomask (vals (depth dset)) (yh dset) None) (\<lambda>glo.
     ebind (getitem2 (to_masked_array otsfn) 0 0) (\<lambda>psi1.
     ebind (plotPsi yy z psi1 ci ''a. Atlantic MOC [Sv]'' (Some (- 40, 90))
              (Some (fst atl)) (Some (yh dset)) (Some (snd glo)) (dates dset)) (\<lambda>p1.
     ebind (findExtrema yy z psi1 26.5 27.0 0 1) (\<lambda>a1.
     ebind (findExtrema yy z psi1 (- 90) (- 33) 0 1) (\<lambda>a2.
     ebind (findExtrema yy z psi1 (- 90) 90 0 1) (\<lambda>a3.
     ebind (getitem2 (to_masked_array otsfn) 0 1) (\<lambda>psi2.
     ebind (plotPsi yy z psi2 ci ''b. Indo-Pacific MOC [Sv]'' (Some (- 40, 65))
              (Some (fst ind)) (Some (yh dset)) (Some (snd glo)) PyNone) (\<lambda>p2.
     ebind (findExtrema yy z psi2 (- 90) 90 2000 (- 1)) (\<lambda>b1.
     ebind (findExtrema yy z psi2 (- 90) 90 0 1) (\<lambda>b2.
     ebind (getitem2 (to_masked_array otsfn) 0 2) (\<lambda>psi3.
     ebind (plotPsi yy z psi3 ci ''c. Global MOC [Sv]'' None
              (Some (fst glo)) (Some (yh dset)) (Some (snd glo)) PyNone) (\<lambda>p3.
     ebind (findExtrema yy z psi3 (- 90) (- 30) 0 1) (\<lambda>c1.
     ebind (findExtrema yy z psi3 25 90 0 1) (\<lambda>c2.
     ebind (findExtrema yy z psi3 (- 90) 90 2000 (- 1)) (\<lambda>c3.
     Inr \<lparr>panels = [p1\<lparr>annotations := [a1, a2, a3]\<rparr>,
                    p2\<lparr>annotations := [b1, b2]\<rparr>,
                    p3\<lparr>annotations := [c1, c2, c3]\<rparr>],
          suptitle = lbl\<rparr>)))))))))))))))))))))"

section \<open>run\<close>


section \<open>Example inputs\<close>

text \<open>
  A grid of two rows and two columns with three vertical interfaces, for the concrete
  instances below. The vertical dimension of the transport fields and the bathymetry are
  left open.
\<close>

definition ex_transport :: "string list \<Rightarrow> npfloat xarr" where
  "ex_transport ds = \<lparr>dims = ds, vals = \<lparr>shape = [1, 2, 2, 2], item = (\<lambda>_. Num 0)\<rparr>\<rparr>"

definition ex_ds :: "string \<Rightarrow> in_dataset" where
  "ex_ds lay =
     \<lparr>ds_dims = [(''time'', 1), (lay, 2), (''z_i'', 3), (''rho2_i'', 3),
                 (''yh'', 2), (''xh'', 2), (''yq'', 2), (''xq'', 2)],
      ds_data_vars = (\<lambda>n.
         if n = ''umo'' then Some (ex_transport [''time'', lay, ''yh'', ''xq''])
         else if n = ''vmo'' then Some (ex_transport [''time'', lay, ''yq'', ''xh''])
         else None),
      ds_coords = (\<lambda>n.
         if n = ''z_i'' \<or> n = ''rho2_i'' then Some [0, 500, 3000]
         else if n = ''yh'' then Some [- 40, 26.7]
         else None)\<rparr>"

definition ex_grid :: hgrid where
  "ex_grid = \<lparr>g_geolon = array2 [[0, 1], [0, 1]],
              g_geolat = array2 [[- 40, - 40], [26.7, 26.7]],
              g_basin = array2 [[2, 2], [3, 3]]\<rparr>"

definition ex_basin_masks :: "real ndarray \<Rightarrow> string \<Rightarrow> error + real ndarray" where
  "ex_basin_masks code name =
     Inr (map_nd (\<lambda>v. if (name = ''atlantic_arctic'' \<and> v = 2) \<or> (name = ''indo_pacific'' \<and> v = 3)
                       then 1 else 0) code)"

definition ex_collab :: "string \<Rightarrow> npfloat list list \<Rightarrow> collaborators" where
  "ex_collab lay topo =
     \<lparr>open_mfdataset = (\<lambda>_. Inr (ex_ds lay)),
      horizontal_grid = (\<lambda>_. Inr ex_grid),
      read_topography = (\<lambda>_ _. Inr \<lparr>dims = [''yh'', ''xh''], vals = array2 topo\<rparr>),
      generate_basin_masks = ex_basin_masks,
      date_range = (\<lambda>_. Inr (PyTuple [1990, 2000]))\<rparr>"

definition ex_args :: dictArgs where
  "ex_args = \<lparr>infile = ''ocean.nc'', outdir = ''out'', label = None, interactive = False\<rparr>"

text \<open>
  A dataset as \<^verbatim>\<open>read\<close> builds it from such inputs, and a stand-in for the overturning
  library: one time level, a value for each interface and row, one of them missing.
\<close>

definition ex_dset :: dataset where
  "ex_dset =
     \<lparr>umo = ex_transport [''time'', ''z_l'', ''yh'', ''xq''],
      vmo = ex_transport [''time'', ''z_l'', ''yq'', ''xh''],
      iface = coord_var ''z_i'' [0, 500, 3000],
      geolon = \<lparr>dims = [''yh'', ''xh''], vals = array2 [[0, 1], [0, 1]]\<rparr>,
      geolat = \<lparr>dims = [''yh'', ''xh''], vals = array2 [[- 40, - 40], [26.7, 26.7]]\<rparr>,
      depth = \<lparr>dims = [''yh'', ''xh''], vals = array2 [[100, 1000], [500, 3000]]\<rparr>,
      zmod = \<lparr>dims = [''z_i'', ''yh'', ''xh''],
              vals = array3 [[[0, 0], [0, 0]],
                             [[- 100, - 500], [- 500, - 500]],
                             [[- 100, - 1000], [- 500, - 3000]]]\<rparr>,
      wet = \<lparr>dims = [''yh'', ''xh''], vals = array2 [[1, 1], [1, 1]]\<rparr>,
      basin_masks = \<lparr>dims = [''basin'', ''yh'', ''xh''],
                     vals = array3 [[[1, 1], [0, 0]], [[0, 0], [1, 1]]]\<rparr>,
      yh = [- 40, 26.7],
      layer = ''z_l'',
      interface = ''z_i'',
      dates = PyTuple [1990, 2000]\<rparr>"

definition ex_psi :: "string \<Rightarrow> npfloat list list" where
  "ex_psi basin =
     (if basin = ''atl-arc'' then [[Num 0, Num 0], [Num 2, Num 17], [NaN, Num 4]]
      else if basin = ''indopac'' then [[Num 0, Num 0], [Num (- 3), Num 1], [NaN, Num (- 8)]]
      else [[Num 0, Num 0], [Num (- 1), Num 18], [NaN, Num (- 4)]])"

definition ex_calcmoc :: "dataset \<Rightarrow> string \<Rightarrow> string \<Rightarrow> string \<Rightarrow> error + npfloat xarr" where
  "ex_calcmoc dset basin lay ifname =
     Inr \<lparr>dims = [''time'', ifname, ''yq''],
          vals = \<lparr>shape = [1, 3, 2],
                   item = (\<lambda>idx. ex_psi basin ! (idx ! 1) ! (idx ! 2))\<rparr>\<rparr>"

text \<open>The streamfunction that \<^verbatim>\<open>calculate\<close> returns for this stand-in.\<close>

definition ex_otsfn :: "npfloat xarr" where
  "ex_otsfn =
     \<lparr>dims = [''time'', ''basin'', ''z_i'', ''yq''],
      vals = \<lparr>shape = [1, 3, 3, 2],
               item = (\<lambda>idx. ex_psi ([''atl-arc'', ''indopac'', ''global''] ! (idx ! 1))
                                 ! (idx ! 2) ! (idx ! 3))\<rparr>\<rparr>"




text \<open>One cell of the mask that \<^verbatim>\<open>_create_topomask\<close> returns, for the instances below.\<close>

definition topomask_cell ::
  "error + real option ndarray \<times> real list \<Rightarrow> nat list \<Rightarrow> error + real option" where
  "topomask_cell r idx = map_sum id (\<lambda>t. item (fst t) idx) r"

section \<open>Properties\<close>

subsection \<open>Auxiliary facts\<close>

lemma ebind_Inl [simp]: "ebind (Inl e) f = Inl e"
  by (simp add: ebind_def)

lemma ebind_Inr [simp]: "ebind (Inr x) f = f x"
  by (simp add: ebind_def)

lemma ebind_weak_cong [cong]: "m = m' \<Longrightarrow> ebind m f = ebind m' f"
  by simp

lemma ebind_eq_Inr: "ebind m f = Inr y \<longleftrightarrow> (\<exists>x. m = Inr x \<and> f x = Inr y)"
  by (cases m) simp_all

lemma ebind_InrE:
  assumes "ebind m f = Inr y"
  obtains x where "m = Inr x" and "f x = Inr y"
  using assms by (auto simp: ebind_eq_Inr)

lemma DataArray_Inr:
  "DataArray v ds = Inr x \<Longrightarrow> dims x = ds \<and> vals x = v \<and> length (shape v) = length ds"
  by (auto simp: DataArray_def split: if_splits)

lemma xr_broadcast_Inr:
  "xr_broadcast x y = Inr r \<Longrightarrow>
     dims r = union_dims (dims x) (dims y) \<and> shape (vals r) = union_shape x y \<and>
     (\<forall>idx. item (vals r) idx = item (vals x) (pick (union_dims (dims x) (dims y)) (dims x) idx))"
  by (auto simp: xr_broadcast_def split: if_splits)

lemma xr_binop_Inr:
  "xr_binop f x y = Inr r \<Longrightarrow>
     dims r = union_dims (dims x) (dims y) \<and> shape (vals r) = union_shape x y \<and>
     (\<forall>idx. item (vals r) idx =
        f (item (vals x) (pick (union_dims (dims x) (dims y)) (dims x) idx))
          (item (vals y) (pick (union_dims (dims x) (dims y)) (dims y) idx)))"
  by (auto simp: xr_binop_def split: if_splits)

lemma xr_transpose_Inr:
  "xr_transpose x names = Inr r \<Longrightarrow>
     dims r = names \<and> shape (vals r) = map (dim_size x) names \<and>
     (\<forall>idx. item (vals r) idx = item (vals x) (pick names (dims x) idx))"
  by (auto simp: xr_transpose_def split: if_splits)

lemma xr_map_simps [simp]:
  "dims (xr_map f x) = dims x"
  "shape (vals (xr_map f x)) = shape (vals x)"
  "item (vals (xr_map f x)) idx = f (item (vals x) idx)"
  by (simp_all add: xr_map_def map_nd_def)

lemma dim_size_xr_map [simp]: "dim_size (xr_map f x) d = dim_size x d"
  by (simp add: dim_size_def)

text \<open>What a successful \<^verbatim>\<open>read\<close> has computed, stage by stage.\<close>

lemma read_fields:
  assumes "read c args vcomp ucomp = Inr dset"
  obtains ds topo dsT where
    "open_mfdataset c (infile args) = Inr ds"
    "read_topography c args ds = Inr topo"
    "horizontal_grid c args = Inr dsT"
    "DataArray (map_nd nan_to_zero (vals topo)) [''yh'', ''xh''] = Inr (depth dset)"
    "DataArray (map_nd nan_to_wet (vals topo)) [''yh'', ''xh''] = Inr (wet dset)"
    "DataArray (g_geolat dsT) [''yh'', ''xh''] = Inr (geolat dset)"
    "assert_not_none (choose_layer (map fst (ds_dims ds))) = Inr (layer dset)"
    "choose_interface (layer dset) = Some (interface dset)"
    "getcoord ds (interface dset) = Inr (iface dset)"
    "compute_zmod (iface dset) (geolat dset) (depth dset) (interface dset) = Inr (zmod dset)"
  using assms unfolding read_def
  apply (elim ebind_InrE)
  apply (auto simp: getitem_def split: option.splits)
  done

lemma compute_zmod_item:
  assumes z: "compute_zmod (coord_var ifname zs) glat dep ifname = Inr zm"
      and g: "dims glat = [''yh'', ''xh'']"
      and d: "dims dep = [''yh'', ''xh'']" "length (shape (vals dep)) = 2"
      and n: "ifname = ''z_i'' \<or> ifname = ''rho2_i''"
  shows "dims zm = [ifname, ''yh'', ''xh'']"
    and "shape (vals zm) = length zs # shape (vals dep)"
    and "item (vals zm) [k, j, i] = - min (item (vals dep) [j, i]) \<bar>zs ! k\<bar>"
proof -
  obtain zb zm0 where
    b: "xr_broadcast (coord_var ifname zs) (xr_map (\<lambda>_. 1::real) glat) = Inr zb" and
    m: "xr_binop min dep (xr_map abs zb) = Inr zm0" and
    t: "xr_transpose (xr_map (\<lambda>x. x * - 1) zm0) [ifname, ''yh'', ''xh''] = Inr zm"
    using z unfolding compute_zmod_def by (elim ebind_InrE)
  obtain ny nx where s: "shape (vals dep) = [ny, nx]"
    using d(2) by (cases "shape (vals dep)"; cases "tl (shape (vals dep))") auto
  have ne: "ifname \<noteq> ''yh''" "ifname \<noteq> ''xh''" using n by auto
  have db: "dims zb = [ifname, ''yh'', ''xh'']"
    using xr_broadcast_Inr [OF b] g ne by (simp add: union_dims_def coord_var_def)
  have ib: "item (vals zb) [a, b, c] = zs ! a" for a b c
    using xr_broadcast_Inr [OF b] g ne
    by (simp add: union_dims_def coord_var_def pick_def array1_def)
  have sb: "dim_size zb ifname = length zs"
    using xr_broadcast_Inr [OF b] g ne db
    by (simp add: union_dims_def union_shape_def coord_var_def dim_size_def array1_def)
  have dm: "dims zm0 = [''yh'', ''xh'', ifname]"
    using xr_binop_Inr [OF m] d db ne by (simp add: union_dims_def)
  have im: "item (vals zm0) [b, c, a] = min (item (vals dep) [b, c]) \<bar>zs ! a\<bar>" for a b c
    using xr_binop_Inr [OF m] d db ne ib
    by (simp add: union_dims_def pick_def)
  have sm: "shape (vals zm0) = [ny, nx, length zs]"
    using xr_binop_Inr [OF m] d db ne s sb
    by (simp add: union_dims_def union_shape_def dim_size_def)
  show "dims zm = [ifname, ''yh'', ''xh'']"
    using xr_transpose_Inr [OF t] by simp
  show "shape (vals zm) = length zs # shape (vals dep)"
    using xr_transpose_Inr [OF t] dm sm s ne by (simp add: dim_size_def)
  show "item (vals zm) [k, j, i] = - min (item (vals dep) [j, i]) \<bar>zs ! k\<bar>"
    using xr_transpose_Inr [OF t] dm im ne by (simp add: pick_def)
qed

lemma read_interface:
  assumes r: "read c args vcomp ucomp = Inr dset"
      and o: "open_mfdataset c (infile args) = Inr ds"
  shows "''z_l'' \<in> set (map fst (ds_dims ds)) \<Longrightarrow> interface dset = ''z_i''"
    and "''z_l'' \<notin> set (map fst (ds_dims ds)) \<Longrightarrow> ''rho2_l'' \<in> set (map fst (ds_dims ds))
           \<Longrightarrow> interface dset = ''rho2_i''"
proof -
  from r obtain ds' where
    o': "open_mfdataset c (infile args) = Inr ds'" and
    l: "assert_not_none (choose_layer (map fst (ds_dims ds'))) = Inr (layer dset)" and
    i: "choose_interface (layer dset) = Some (interface dset)"
    by (elim read_fields) blast
  from o o' have e: "ds' = ds" by simp
  show "interface dset = ''z_i''" if "''z_l'' \<in> set (map fst (ds_dims ds))"
    using that l i e by (auto simp: assert_not_none_def choose_layer_def choose_interface_def)
  show "interface dset = ''rho2_i''"
    if "''z_l'' \<notin> set (map fst (ds_dims ds))" "''rho2_l'' \<in> set (map fst (ds_dims ds))"
    using that l i e by (auto simp: assert_not_none_def choose_layer_def choose_interface_def)
qed

subsection \<open>The fields assembled by read\<close>

text \<open>
  Claim C4. Whenever \<^verbatim>\<open>read\<close> returns a dataset, its \<open>wet\<close> and \<open>depth\<close> fields have
  the shape of the bathymetry that \<^verbatim>\<open>read_topography\<close> gave, and at every position
  \<open>[j, i]\<close>: \<open>wet\<close> is 0 exactly where the bathymetry is missing (NaN), and there
  \<open>depth\<close> is 0; where the bathymetry has a value, \<open>wet\<close> is 1 and \<open>depth\<close> is that
  value.
\<close>

theorem wet_depth_complementary:
  assumes r: "read c args vcomp ucomp = Inr dset"
      and o: "open_mfdataset c (infile args) = Inr ds"
      and t: "read_topography c args ds = Inr topo"
  shows "dims (depth dset) = [''yh'', ''xh''] \<and> dims (wet dset) = [''yh'', ''xh''] \<and>
         shape (vals (depth dset)) = shape (vals topo) \<and>
         shape (vals (wet dset)) = shape (vals topo) \<and>
         (\<forall>j i. (item (vals (wet dset)) [j, i] = 0 \<longleftrightarrow> isnan (item (vals topo) [j, i])) \<and>
                (isnan (item (vals topo) [j, i]) \<longrightarrow> item (vals (depth dset)) [j, i] = 0) \<and>
                (\<forall>x. item (vals topo) [j, i] = Num x \<longrightarrow>
                     item (vals (wet dset)) [j, i] = 1 \<and> item (vals (depth dset)) [j, i] = x))"
proof -
  from r obtain ds' topo' where
    o': "open_mfdataset c (infile args) = Inr ds'" and
    t': "read_topography c args ds' = Inr topo'" and
    d: "DataArray (map_nd nan_to_zero (vals topo')) [''yh'', ''xh''] = Inr (depth dset)" and
    w: "DataArray (map_nd nan_to_wet (vals topo')) [''yh'', ''xh''] = Inr (wet dset)"
    by (rule read_fields)
  from o o' have "ds' = ds" by simp
  with t t' have tt: "topo' = topo" by simp
  have dd: "dims (depth dset) = [''yh'', ''xh'']" "vals (depth dset) = map_nd nan_to_zero (vals topo)"
    using DataArray_Inr [OF d] tt by simp_all
  have ww: "dims (wet dset) = [''yh'', ''xh'']" "vals (wet dset) = map_nd nan_to_wet (vals topo)"
    using DataArray_Inr [OF w] tt by simp_all
  have p: "(nan_to_wet v = 0 \<longleftrightarrow> isnan v) \<and> (isnan v \<longrightarrow> nan_to_zero v = 0) \<and>
           (\<forall>x. v = Num x \<longrightarrow> nan_to_wet v = 1 \<and> nan_to_zero v = x)" for v
    by (cases v) (simp_all add: nan_to_wet_def nan_to_zero_def)
  show ?thesis
    using p by (simp add: dd ww map_nd_def)
qed

text \<open>An instance: a bathymetry with one missing cell.\<close>

theorem wet_depth_complementary_witness:
  "\<exists>dset. read (ex_collab ''z_l'' [[NaN, Num 1000], [Num 500, Num 3000]]) ex_args ''vmo'' ''umo''
             = Inr dset \<and>
          item (vals (wet dset)) [0, 0] = 0 \<and> item (vals (depth dset)) [0, 0] = 0 \<and>
          item (vals (wet dset)) [1, 0] = 1 \<and> item (vals (depth dset)) [1, 0] = 500"
proof -
  let ?c = "ex_collab ''z_l'' [[NaN, Num 1000], [Num 500, Num 3000]]"
  have "isl (read ?c ex_args ''vmo'' ''umo'') = False"
    by code_simp
  then obtain dset where r: "read ?c ex_args ''vmo'' ''umo'' = Inr dset"
    by (cases "read ?c ex_args ''vmo'' ''umo''") auto
  have o: "open_mfdataset ?c (infile ex_args) = Inr (ex_ds ''z_l'')"
    by (simp add: ex_collab_def)
  have t: "read_topography ?c ex_args (ex_ds ''z_l'')
             = Inr \<lparr>dims = [''yh'', ''xh''], vals = array2 [[NaN, Num 1000], [Num 500, Num 3000]]\<rparr>"
    by (simp add: ex_collab_def)
  from wet_depth_complementary [OF r o t] have
    "item (vals (wet dset)) [0, 0] = 0 \<and> item (vals (depth dset)) [0, 0] = 0 \<and>
     item (vals (wet dset)) [1, 0] = 1 \<and> item (vals (depth dset)) [1, 0] = 500"
    by (simp add: array2_def)
  with r show ?thesis by blast
qed

text \<open>
  Claim C3. Whenever \<^verbatim>\<open>read\<close> returns a dataset from a bathymetry whose values are all
  present and non-negative, \<open>zmod\<close> has the dimensions interface, yh, xh, and at every
  level \<open>k\<close> and column \<open>(j, i)\<close> it is the negated minimum of the depth of the column
  and the absolute interface position of the level; so its absolute value is at most the
  depth of the column, and it is never positive.
\<close>

theorem zmod_clipped:
  assumes r: "read c args vcomp ucomp = Inr dset"
      and o: "open_mfdataset c (infile args) = Inr ds"
      and t: "read_topography c args ds = Inr topo"
      and zc: "ds_coords ds (interface dset) = Some zs"
      and fin: "\<forall>j i. j < shape (vals topo) ! 0 \<and> i < shape (vals topo) ! 1 \<longrightarrow>
                  (\<exists>d\<ge>0. item (vals topo) [j, i] = Num d)"
  shows "dims (zmod dset) = [interface dset, ''yh'', ''xh''] \<and>
         shape (vals (zmod dset)) = length zs # shape (vals topo) \<and>
         (\<forall>k j i. k < length zs \<and> j < shape (vals topo) ! 0 \<and> i < shape (vals topo) ! 1 \<longrightarrow>
            item (vals topo) [j, i] = Num (item (vals (depth dset)) [j, i]) \<and>
            item (vals (zmod dset)) [k, j, i]
              = - min (item (vals (depth dset)) [j, i]) \<bar>zs ! k\<bar> \<and>
            \<bar>item (vals (zmod dset)) [k, j, i]\<bar> \<le> item (vals (depth dset)) [j, i] \<and>
            item (vals (zmod dset)) [k, j, i] \<le> 0)"
proof -
  from r obtain ds' topo' and dsT :: hgrid where
    o': "open_mfdataset c (infile args) = Inr ds'" and
    t': "read_topography c args ds' = Inr topo'" and
    d: "DataArray (map_nd nan_to_zero (vals topo')) [''yh'', ''xh''] = Inr (depth dset)" and
    g: "DataArray (g_geolat dsT) [''yh'', ''xh''] = Inr (geolat dset)" and
    ci: "choose_interface (layer dset) = Some (interface dset)" and
    gc: "getcoord ds' (interface dset) = Inr (iface dset)" and
    z: "compute_zmod (iface dset) (geolat dset) (depth dset) (interface dset) = Inr (zmod dset)"
    by (elim read_fields) blast
  from o o' have e: "ds' = ds" by simp
  with t t' have tt: "topo' = topo" by simp
  from e zc gc have i: "iface dset = coord_var (interface dset) zs"
    by (simp add: getcoord_def)
  have dd: "dims (depth dset) = [''yh'', ''xh'']"
           "vals (depth dset) = map_nd nan_to_zero (vals topo)"
           "length (shape (vals (depth dset))) = 2"
    using DataArray_Inr [OF d] tt by (simp_all add: map_nd_def)
  have gg: "dims (geolat dset) = [''yh'', ''xh'']"
    using DataArray_Inr [OF g] by simp
  have n: "interface dset = ''z_i'' \<or> interface dset = ''rho2_i''"
    using ci by (auto simp: choose_interface_def split: if_splits)
  have z': "compute_zmod (coord_var (interface dset) zs) (geolat dset) (depth dset)
              (interface dset) = Inr (zmod dset)"
    using z i by simp
  note cz = compute_zmod_item [OF z' gg dd(1) dd(3) n]
  have sh: "shape (vals (depth dset)) = shape (vals topo)"
    by (simp add: dd(2) map_nd_def)
  have pt: "item (vals topo) [j, i] = Num (item (vals (depth dset)) [j, i]) \<and>
            0 \<le> item (vals (depth dset)) [j, i]"
    if "j < shape (vals topo) ! 0" "i < shape (vals topo) ! 1" for j i
  proof -
    from fin that obtain x where "0 \<le> x" "item (vals topo) [j, i] = Num x" by blast
    then show ?thesis by (simp add: dd(2) map_nd_def nan_to_zero_def)
  qed
  show ?thesis
  proof (intro conjI allI impI)
    show "dims (zmod dset) = [interface dset, ''yh'', ''xh'']" by (rule cz(1))
    show "shape (vals (zmod dset)) = length zs # shape (vals topo)"
      using cz(2) sh by simp
  next
    fix k j i
    assume a: "k < length zs \<and> j < shape (vals topo) ! 0 \<and> i < shape (vals topo) ! 1"
    then have p: "item (vals topo) [j, i] = Num (item (vals (depth dset)) [j, i])"
                 "0 \<le> item (vals (depth dset)) [j, i]"
      using pt by simp_all
    show "item (vals topo) [j, i] = Num (item (vals (depth dset)) [j, i])" by (rule p(1))
    show "item (vals (zmod dset)) [k, j, i] = - min (item (vals (depth dset)) [j, i]) \<bar>zs ! k\<bar>"
      by (rule cz(3))
    show "\<bar>item (vals (zmod dset)) [k, j, i]\<bar> \<le> item (vals (depth dset)) [j, i]"
      using p(2) by (simp add: cz(3))
    show "item (vals (zmod dset)) [k, j, i] \<le> 0"
      using p(2) by (simp add: cz(3))
  qed
qed

text \<open>An instance: interfaces at 0, 500 and 3000 over columns of depth 100 to 3000.\<close>

theorem zmod_clipped_witness:
  "\<exists>dset. read (ex_collab ''z_l'' [[Num 100, Num 1000], [Num 500, Num 3000]]) ex_args ''vmo'' ''umo''
             = Inr dset \<and>
          shape (vals (zmod dset)) = [3, 2, 2] \<and>
          item (vals (zmod dset)) [2, 0, 1] = - 1000 \<and>
          item (vals (zmod dset)) [1, 1, 1] = - 500 \<and>
          \<bar>item (vals (zmod dset)) [2, 0, 1]\<bar> \<le> item (vals (depth dset)) [0, 1]"
proof -
  let ?topo = "[[Num 100, Num 1000], [Num 500, Num 3000]]"
  let ?c = "ex_collab ''z_l'' ?topo"
  have "isl (read ?c ex_args ''vmo'' ''umo'') = False"
    by code_simp
  then obtain dset where r: "read ?c ex_args ''vmo'' ''umo'' = Inr dset"
    by (cases "read ?c ex_args ''vmo'' ''umo''") auto
  have o: "open_mfdataset ?c (infile ex_args) = Inr (ex_ds ''z_l'')"
    by (simp add: ex_collab_def)
  have t: "read_topography ?c ex_args (ex_ds ''z_l'')
             = Inr \<lparr>dims = [''yh'', ''xh''], vals = array2 ?topo\<rparr>"
    by (simp add: ex_collab_def)
  have i: "interface dset = ''z_i''"
    using read_interface [OF r o] by (simp add: ex_ds_def)
  have zc: "ds_coords (ex_ds ''z_l'') (interface dset) = Some [0, 500, 3000]"
    by (simp add: i ex_ds_def)
  have fin: "\<forall>j i. j < shape (vals \<lparr>dims = [''yh'', ''xh''], vals = array2 ?topo\<rparr>) ! 0 \<and>
                   i < shape (vals \<lparr>dims = [''yh'', ''xh''], vals = array2 ?topo\<rparr>) ! 1 \<longrightarrow>
               (\<exists>d\<ge>0. item (vals \<lparr>dims = [''yh'', ''xh''], vals = array2 ?topo\<rparr>) [j, i] = Num d)"
    by (auto simp: array2_def less_Suc_eq numeral_2_eq_2)
  note th = zmod_clipped [OF r o t zc fin]
  from th have s: "shape (vals (zmod dset)) = [3, 2, 2]"
    by (simp add: array2_def)
  note q = th [THEN conjunct2, THEN conjunct2, THEN spec, THEN spec, THEN spec]
  from q [of 2 0 1] have a: "item (vals (depth dset)) [0, 1] = 1000"
    "item (vals (zmod dset)) [2, 0, 1] = - 1000"
    "\<bar>item (vals (zmod dset)) [2, 0, 1]\<bar> \<le> item (vals (depth dset)) [0, 1]"
    by (simp_all add: array2_def)
  from q [of 1 1 1] have b: "item (vals (zmod dset)) [1, 1, 1] = - 500"
    by (simp add: array2_def)
  from r s a b show ?thesis by blast
qed




subsection \<open>The layout of the streamfunction\<close>

lemma index_of_nth: "distinct xs \<Longrightarrow> i < length xs \<Longrightarrow> index_of xs (xs ! i) = i"
proof (induction xs arbitrary: i)
  case Nil
  then show ?case by simp
next
  case (Cons x xs)
  show ?case
  proof (cases i)
    case 0
    then show ?thesis by simp
  next
    case (Suc k)
    with Cons.prems have "xs ! k \<in> set xs" "x \<notin> set xs" by auto
    then have "x \<noteq> xs ! k" by auto
    with Cons Suc show ?thesis by simp
  qed
qed

lemma map_nth_index_of:
  assumes "distinct ds" "length rest = length ds"
  shows "map (\<lambda>e. rest ! index_of ds e) ds = rest"
  using assms by (intro nth_equalityI) (simp_all add: index_of_nth)

lemma index_of_less: "e \<in> set xs \<Longrightarrow> index_of xs e < length xs"
  by (induction xs) auto

lemma nth_index_of: "e \<in> set xs \<Longrightarrow> xs ! index_of xs e = e"
  by (induction xs) auto

lemma emap3:
  "emap f [x, y, z] = Inr r \<longleftrightarrow> (\<exists>a b c. f x = Inr a \<and> f y = Inr b \<and> f z = Inr c \<and> r = [a, b, c])"
  by (auto simp: ebind_eq_Inr)

lemma union_dims_subset: "set es \<subseteq> set ds \<Longrightarrow> union_dims ds es = ds"
  by (auto simp: union_dims_def filter_empty_conv)

lemma locate3: "b < 3 \<Longrightarrow> locate [1, 1, 1] b = (b, 0)"
  by (auto simp: less_Suc_eq numeral_3_eq_3)

text \<open>Three arrays over the same dimensions, joined along a new one.\<close>

lemma xr_concat_new3:
  assumes same: "set (dims a1) = set (dims a0)" "set (dims a2) = set (dims a0)"
      and sz: "\<forall>e \<in> set (dims a0). dim_size a1 e = dim_size a0 e \<and> dim_size a2 e = dim_size a0 e"
      and new: "d \<notin> set (dims a0)"
  obtains cat where
    "xr_concat [a0, a1, a2] d = Inr cat"
    "dims cat = d # dims a0"
    "shape (vals cat) = 3 # map (dim_size a0) (dims a0)"
    "\<And>b idx. b < 3 \<Longrightarrow>
       item (vals cat) (b # idx) = item (vals ([a0, a1, a2] ! b)) (pick (dims a0) (dims ([a0, a1, a2] ! b)) idx)"
proof -
  let ?xs = "[a0, a1, a2]"
  have ad: "all_dims ?xs = dims a0"
    using same by (simp add: all_dims_def union_dims_subset union_dims_def)
  have cd: "concat_dims ?xs d = d # dims a0"
    using new by (simp add: concat_dims_def ad)
  have sa: "size_among ?xs e = dim_size a0 e" if "e \<in> set (dims a0)" for e
    using that by (simp add: size_among_def)
  have ok: "concat_sizes_agree ?xs d"
    using same sz by (auto simp: concat_sizes_agree_def list_all_iff sa)
  have cl1: "concat_len d a0 = 1" "concat_len d a1 = 1" "concat_len d a2 = 1"
    using same new by (simp_all add: concat_len_def)
  have cl: "map (concat_len d) ?xs = [1, 1, 1]"
    by (simp add: cl1)
  define cat where "cat = \<lparr>dims = d # dims a0,
      vals = \<lparr>shape = map (\<lambda>e. if e = d then sum_list (map (concat_len d) ?xs)
                                else size_among ?xs e) (d # dims a0),
               item = (\<lambda>idx. case locate (map (concat_len d) ?xs)
                                     (idx ! index_of (d # dims a0) d) of
                          (k, j) \<Rightarrow> item (vals (?xs ! k))
                             (map (\<lambda>e. if e = d then j else idx ! index_of (d # dims a0) e)
                                (dims (?xs ! k))))\<rparr>\<rparr>"
  have c: "xr_concat ?xs d = Inr cat"
    using ok unfolding xr_concat_def cat_def cd by simp
  have dc: "dims cat = d # dims a0"
    by (simp add: cat_def)
  have sc: "shape (vals cat) = 3 # map (dim_size a0) (dims a0)"
    using new by (auto simp: cat_def cl1 sa)
  have ic: "item (vals cat) (b # idx)
      = item (vals (?xs ! b)) (pick (dims a0) (dims (?xs ! b)) idx)" if "b < 3" for b idx
  proof -
    have nd: "d \<notin> set (dims (?xs ! b))"
      using that same new by (auto simp: less_Suc_eq numeral_3_eq_3)
    have "map (\<lambda>e. if e = d then 0 else (b # idx) ! index_of (d # dims a0) e) (dims (?xs ! b))
            = pick (dims a0) (dims (?xs ! b)) idx"
      unfolding pick_def using nd by (intro map_cong) auto
    then show ?thesis
      using that locate3 [OF that] by (simp add: cat_def cl1 del: locate.simps)
  qed
  from c dc sc ic show ?thesis by (rule that)
qed

text \<open>
  Claim C1, as amended. Let the overturning library return, for the three basins, arrays
  over the same dimensions, each named once, with the same sizes, in whatever order, none
  of the dimensions being named \<^verbatim>\<open>basin\<close>. If the arrays have no dimension at all, \<^verbatim>\<open>calculate\<close>
  raises an index error. Otherwise it returns an array that holds the three results, for
  \<^verbatim>\<open>atl-arc\<close>, \<^verbatim>\<open>indopac\<close> and \<^verbatim>\<open>global\<close> in this order, along a new dimension
  \<^verbatim>\<open>basin\<close> of size 3. After the transposition the leading dimension of the first
  result is dimension 0 and \<^verbatim>\<open>basin\<close> is dimension 1; the other dimensions follow in
  their order.
\<close>

theorem calculate_layout:
  assumes a0: "calcmoc dset ''atl-arc'' (layer dset) (interface dset) = Inr a0"
      and a1: "calcmoc dset ''indopac'' (layer dset) (interface dset) = Inr a1"
      and a2: "calcmoc dset ''global'' (layer dset) (interface dset) = Inr a2"
      and dist: "distinct (dims a0)"
      and same: "set (dims a1) = set (dims a0)" "set (dims a2) = set (dims a0)"
      and sz: "\<forall>e \<in> set (dims a0). dim_size a1 e = dim_size a0 e \<and> dim_size a2 e = dim_size a0 e"
      and new: "''basin'' \<notin> set (dims a0)"
  shows "(dims a0 = [] \<longrightarrow> calculate calcmoc dset = Inl IndexError) \<and>
         (dims a0 \<noteq> [] \<longrightarrow>
            (\<exists>r. calculate calcmoc dset = Inr r \<and>
               dims r = hd (dims a0) # ''basin'' # tl (dims a0) \<and>
               dim_size r ''basin'' = 3 \<and>
               (\<forall>e \<in> set (dims a0). dim_size r e = dim_size a0 e) \<and>
               (\<forall>t b rest. b < 3 \<and> length rest = length (tl (dims a0)) \<longrightarrow>
                  item (vals r) (t # b # rest)
                    = item (vals ([a0, a1, a2] ! b))
                        (pick (dims a0) (dims ([a0, a1, a2] ! b)) (t # rest)))))"
proof -
  let ?as = "[a0, a1, a2]"
  obtain cat where
    k: "xr_concat ?as ''basin'' = Inr cat" and
    cd: "dims cat = ''basin'' # dims a0" and
    cs: "shape (vals cat) = 3 # map (dim_size a0) (dims a0)" and
    ci: "\<And>b idx. b < 3 \<Longrightarrow> item (vals cat) (b # idx)
           = item (vals (?as ! b)) (pick (dims a0) (dims (?as ! b)) idx)"
    using xr_concat_new3 [OF same sz new] by blast
  have em: "emap (\<lambda>x. calcmoc dset x (layer dset) (interface dset))
              [''atl-arc'', ''indopac'', ''global''] = Inr ?as"
    using a0 a1 a2 by simp
  have calc: "calculate calcmoc dset =
      ebind (nth_err (dims cat) 1) (\<lambda>d1. ebind (nth_err (dims cat) 0) (\<lambda>d0.
        xr_transpose_ellipsis cat [d1, d0]))"
    unfolding calculate_def em by (simp add: k)
  show ?thesis
  proof (intro conjI impI)
    assume "dims a0 = []"
    then show "calculate calcmoc dset = Inl IndexError"
      by (simp add: calc cd nth_err_def)
  next
    assume "dims a0 \<noteq> []"
    then obtain d ds where da: "dims a0 = d # ds" by (cases "dims a0") auto
    with dist new have dd: "distinct ds" "d \<notin> set ds" "''basin'' \<notin> set ds" "d \<noteq> ''basin''"
      by auto
    let ?names = "d # ''basin'' # ds"
    have f: "filter (\<lambda>e. e \<noteq> d \<and> e \<noteq> ''basin'') ds = ds"
      using dd by (auto simp: filter_id_conv)
    have tr: "calculate calcmoc dset = xr_transpose cat ?names"
      using dd by (simp add: calc cd da nth_err_def xr_transpose_ellipsis_def f)
    define r where "r = \<lparr>dims = ?names,
        vals = \<lparr>shape = map (dim_size cat) ?names,
                 item = (\<lambda>idx. item (vals cat) (pick ?names (dims cat) idx))\<rparr>\<rparr>"
    have cr: "calculate calcmoc dset = Inr r"
      using dd by (simp add: tr xr_transpose_def cd da r_def list_all_iff)
    have rd: "dims r = hd (dims a0) # ''basin'' # tl (dims a0)"
      by (simp add: r_def da)
    have sb: "dim_size r ''basin'' = 3"
      using dd by (simp add: r_def dim_size_def cd cs)
    have se: "dim_size r e = dim_size a0 e" if "e \<in> set (dims a0)" for e
    proof -
      from that new have ne: "e \<noteq> ''basin''" by auto
      from that have m: "e \<in> set ?names" by (auto simp: da)
      have "dim_size r e = map (dim_size cat) ?names ! index_of ?names e"
        by (simp add: r_def dim_size_def)
      also have "\<dots> = dim_size cat (?names ! index_of ?names e)"
        using index_of_less [OF m] by (intro nth_map) simp
      also have "\<dots> = dim_size cat e"
        using nth_index_of [OF m] by simp
      also have "\<dots> = map (dim_size a0) (dims a0) ! index_of (dims a0) e"
        using ne by (simp add: dim_size_def cd cs)
      also have "\<dots> = dim_size a0 (dims a0 ! index_of (dims a0) e)"
        using index_of_less [OF that] by (intro nth_map)
      also have "\<dots> = dim_size a0 e"
        using nth_index_of [OF that] by simp
      finally show ?thesis .
    qed
    have it: "item (vals r) (t # b # rest)
        = item (vals (?as ! b)) (pick (dims a0) (dims (?as ! b)) (t # rest))"
      if "b < 3" "length rest = length (tl (dims a0))" for t b rest
    proof -
      from that(2) have l: "length rest = length ds" by (simp add: da)
      have "map (\<lambda>e. (t # b # rest) ! index_of (d # ''basin'' # ds) e) ds
              = map (\<lambda>e. rest ! index_of ds e) ds"
        using dd by (intro map_cong) auto
      also have "\<dots> = rest" using dd(1) l by (rule map_nth_index_of)
      finally have "pick ?names (dims cat) (t # b # rest) = b # t # rest"
        using dd by (simp add: pick_def cd da)
      then show ?thesis using that(1) by (simp add: r_def ci)
    qed
    from cr rd sb se it show "\<exists>r. calculate calcmoc dset = Inr r \<and>
        dims r = hd (dims a0) # ''basin'' # tl (dims a0) \<and>
        dim_size r ''basin'' = 3 \<and>
        (\<forall>e \<in> set (dims a0). dim_size r e = dim_size a0 e) \<and>
        (\<forall>t b rest. b < 3 \<and> length rest = length (tl (dims a0)) \<longrightarrow>
           item (vals r) (t # b # rest)
             = item (vals ([a0, a1, a2] ! b))
                 (pick (dims a0) (dims ([a0, a1, a2] ! b)) (t # rest)))"
      by blast
  qed
qed

text \<open>An instance: results over (time, z_i, yq).\<close>

theorem calculate_layout_witness:
  "\<exists>r. calculate ex_calcmoc ex_dset = Inr r \<and>
        dims r = [''time'', ''basin'', ''z_i'', ''yq''] \<and>
        dim_size r ''basin'' = 3 \<and>
        item (vals r) [0, 0, 1, 1] = Num 17 \<and>
        item (vals r) [0, 1, 2, 1] = Num (- 8) \<and>
        item (vals r) [0, 2, 1, 1] = Num 18"
proof -
  let ?a = "\<lambda>b. \<lparr>dims = [''time'', ''z_i'', ''yq''],
                  vals = \<lparr>shape = [1, 3, 2],
                           item = (\<lambda>idx. ex_psi b ! (idx ! 1) ! (idx ! 2))\<rparr>\<rparr>"
  have a0: "ex_calcmoc ex_dset ''atl-arc'' (layer ex_dset) (interface ex_dset) = Inr (?a ''atl-arc'')"
    and a1: "ex_calcmoc ex_dset ''indopac'' (layer ex_dset) (interface ex_dset) = Inr (?a ''indopac'')"
    and a2: "ex_calcmoc ex_dset ''global'' (layer ex_dset) (interface ex_dset) = Inr (?a ''global'')"
    by (simp_all add: ex_calcmoc_def ex_dset_def)
  have dist: "distinct (dims (?a ''atl-arc''))" by simp
  have same: "set (dims (?a ''indopac'')) = set (dims (?a ''atl-arc''))"
             "set (dims (?a ''global'')) = set (dims (?a ''atl-arc''))"
    by simp_all
  have sz: "\<forall>e \<in> set (dims (?a ''atl-arc'')).
              dim_size (?a ''indopac'') e = dim_size (?a ''atl-arc'') e \<and>
              dim_size (?a ''global'') e = dim_size (?a ''atl-arc'') e"
    by (simp add: dim_size_def)
  have new: "''basin'' \<notin> set (dims (?a ''atl-arc''))" by simp
  from calculate_layout [where calcmoc = ex_calcmoc and dset = ex_dset,
      OF a0 a1 a2 dist same sz new]
  obtain r where c: "calculate ex_calcmoc ex_dset = Inr r"
    and d: "dims r = [''time'', ''basin'', ''z_i'', ''yq'']"
    and s: "dim_size r ''basin'' = 3"
    and i: "\<And>t b rest. b < 3 \<Longrightarrow> length rest = 2 \<Longrightarrow>
              item (vals r) (t # b # rest)
                = item (vals ([?a ''atl-arc'', ?a ''indopac'', ?a ''global''] ! b))
                    (pick [''time'', ''z_i'', ''yq'']
                       (dims ([?a ''atl-arc'', ?a ''indopac'', ?a ''global''] ! b)) (t # rest))"
    by auto
  from i [of 0 "[1, 1]" 0] have x: "item (vals r) [0, 0, 1, 1] = Num 17"
    by (simp add: ex_psi_def pick_def)
  from i [of 1 "[2, 1]" 0] have y: "item (vals r) [0, 1, 2, 1] = Num (- 8)"
    by (simp add: ex_psi_def pick_def)
  from i [of 2 "[1, 1]" 0] have z: "item (vals r) [0, 2, 1, 1] = Num 18"
    by (simp add: ex_psi_def pick_def)
  from c d s x y z show ?thesis by blast
qed

text \<open>
  The claim as stated has \<^verbatim>\<open>basin\<close> as dimension 0 of the result. It is dimension 1:
  \<^verbatim>\<open>xr.concat\<close> puts the new dimension first, and the transposition then moves it
  behind the leading dimension of the library's results.
\<close>

theorem calculate_basin_leading_counterexample:
  "map_sum id dims (calculate ex_calcmoc ex_dset) = Inr [''time'', ''basin'', ''z_i'', ''yq'']"
  by code_simp

subsection \<open>The panels\<close>

text \<open>What a successful \<^verbatim>\<open>plot\<close> has computed, step by step.\<close>

lemma plot_fields:
  assumes "plot ci dset otsfn lbl = Inr fig"
  obtains m1 m2 z yy atl ind glo psi1 psi2 psi3 p1 p2 p3 a1 a2 a3 b1 b2 c1 c2 c3 where
    "isel (basin_masks dset) ''basin'' 0 = Inr m1"
    "isel (basin_masks dset) ''basin'' 1 = Inr m2"
    "flatten_z (vals (zmod dset)) = Inr z"
    "plot_yy (vals (geolat dset)) z = Inr yy"
    "create_topomask (vals (depth dset)) (yh dset) (Some m1) = Inr atl"
    "create_topomask (vals (depth dset)) (yh dset) (Some m2) = Inr ind"
    "create_topomask (vals (depth dset)) (yh dset) None = Inr glo"
    "getitem2 (to_masked_array otsfn) 0 0 = Inr psi1"
    "getitem2 (to_masked_array otsfn) 0 1 = Inr psi2"
    "getitem2 (to_masked_array otsfn) 0 2 = Inr psi3"
    "plotPsi yy z psi1 ci ''a. Atlantic MOC [Sv]'' (Some (- 40, 90))
       (Some (fst atl)) (Some (yh dset)) (Some (snd glo)) (dates dset) = Inr p1"
    "plotPsi yy z psi2 ci ''b. Indo-Pacific MOC [Sv]'' (Some (- 40, 65))
       (Some (fst ind)) (Some (yh dset)) (Some (snd glo)) PyNone = Inr p2"
    "plotPsi yy z psi3 ci ''c. Global MOC [Sv]'' None
       (Some (fst glo)) (Some (yh dset)) (Some (snd glo)) PyNone = Inr p3"
    "findExtrema yy z psi1 26.5 27.0 0 1 = Inr a1"
    "findExtrema yy z psi1 (- 90) (- 33) 0 1 = Inr a2"
    "findExtrema yy z psi1 (- 90) 90 0 1 = Inr a3"
    "findExtrema yy z psi2 (- 90) 90 2000 (- 1) = Inr b1"
    "findExtrema yy z psi2 (- 90) 90 0 1 = Inr b2"
    "findExtrema yy z psi3 (- 90) (- 30) 0 1 = Inr c1"
    "findExtrema yy z psi3 25 90 0 1 = Inr c2"
    "findExtrema yy z psi3 (- 90) 90 2000 (- 1) = Inr c3"
    "fig = \<lparr>panels = [p1\<lparr>annotations := [a1, a2, a3]\<rparr>,
                       p2\<lparr>annotations := [b1, b2]\<rparr>,
                       p3\<lparr>annotations := [c1, c2, c3]\<rparr>],
            suptitle = lbl\<rparr>"
  using assms unfolding plot_def
  apply (elim ebind_InrE)
  apply auto
  done

lemma plotPsi_Inr:
  assumes "plotPsi y z psi ci ttl xl topomask yhv zz ds = Inr p"
  shows "contour_x p = y" "contour_y p = z"
    "contour_data p = (if topomask \<noteq> None then fill_masked (Num 0) psi else fill_masked NaN psi)"
    "date_label ds = Inr (datestring p)"
  using assms unfolding plotPsi_def by (auto elim!: ebind_InrE)

lemma plotPsi_date_error:
  assumes "date_label ds = Inl e"
  shows "\<exists>e'. plotPsi y z psi ci ttl xl topomask yhv zz ds = Inl e'"
proof (cases "plotPsi y z psi ci ttl xl topomask yhv zz ds")
  case (Inl e')
  then show ?thesis by blast
next
  case (Inr p)
  from plotPsi_Inr(4) [OF Inr] assms show ?thesis by simp
qed

text \<open>The checks of the contour calls look at the shapes of their arguments only.\<close>

lemma contour_args_shape:
  "shape a = shape b \<Longrightarrow> contour_args x y a lv = contour_args x y b lv"
  by (simp add: contour_args_def)

lemma contour_args_fill:
  "contour_args y z (if t \<noteq> None then fill_masked (Num 0) psi else fill_masked NaN psi) ci
     = contour_args y z psi ci"
  by (rule contour_args_shape) (simp add: fill_masked_def map_nd_def)

lemma plotPsi_drawn:
  assumes "contour_args y z psi ci = Inr ()" "shade topomask yhv zz = Inr sh"
  shows "plotPsi y z psi ci ttl xl topomask yhv zz ds =
           ebind (date_label ds) (\<lambda>dl.
             Inr \<lparr>title = ttl, contour_x = y, contour_y = z,
                  contour_data = (if topomask \<noteq> None then fill_masked (Num 0) psi
                                  else fill_masked NaN psi),
                  levels = ci, xlim = xl, shading = sh, datestring = dl, annotations = []\<rparr>)"
proof -
  have f: "contour_args y z (fill_masked (Num 0) psi) ci = Inr ()"
          "contour_args y z (fill_masked NaN psi) ci = Inr ()"
    using assms(1) contour_args_shape [of "fill_masked (Num 0) psi" psi y z ci]
      contour_args_shape [of "fill_masked NaN psi" psi y z ci]
    by (simp_all add: fill_masked_def map_nd_def)
  show ?thesis
    unfolding plotPsi_def using f assms(2) by (cases topomask) simp_all
qed

text \<open>
  Claim C5, as amended. Where the contours and the shading of a panel can be drawn, the
  panel plotter makes no check when \<^verbatim>\<open>dates\<close> is None, and rendering proceeds. Any
  other value must be a tuple: a list or a string raises an assertion error. The length
  of the tuple is not checked: of a tuple of two or more elements the first two are
  printed, and a shorter tuple raises an index error. With a list or a string as the
  \<^verbatim>\<open>dates\<close> of the dataset \<^verbatim>\<open>plot\<close> returns no figure.
\<close>

theorem dates_check:
  assumes c: "contour_args y z psi ci = Inr ()"
      and s: "shade topomask yhv zz = Inr sh"
  shows "(\<exists>p. plotPsi y z psi ci ttl xl topomask yhv zz PyNone = Inr p \<and> datestring p = None) \<and>
         (\<forall>xs. 2 \<le> length xs \<longrightarrow>
            (\<exists>p. plotPsi y z psi ci ttl xl topomask yhv zz (PyTuple xs) = Inr p \<and>
                 datestring p = Some (xs ! 0, xs ! 1))) \<and>
         (\<forall>xs. length xs < 2 \<longrightarrow>
            plotPsi y z psi ci ttl xl topomask yhv zz (PyTuple xs) = Inl IndexError) \<and>
         (\<forall>xs. plotPsi y z psi ci ttl xl topomask yhv zz (PyList xs) = Inl AssertionError) \<and>
         (\<forall>str. plotPsi y z psi ci ttl xl topomask yhv zz (PyStr str) = Inl AssertionError) \<and>
         (\<forall>dset otsfn lbl fig.
            (\<exists>xs. dates dset = PyList xs) \<or> (\<exists>str. dates dset = PyStr str) \<longrightarrow>
            plot ci dset otsfn lbl \<noteq> Inr fig)"
proof (intro conjI allI impI)
  note d = plotPsi_drawn [OF c s]
  show "\<exists>p. plotPsi y z psi ci ttl xl topomask yhv zz PyNone = Inr p \<and> datestring p = None"
    by (simp add: d date_label_def)
  show "\<exists>p. plotPsi y z psi ci ttl xl topomask yhv zz (PyTuple xs) = Inr p \<and>
            datestring p = Some (xs ! 0, xs ! 1)" if "2 \<le> length xs" for xs
    using that by (auto simp: d date_label_def nth_err_def)
  show "plotPsi y z psi ci ttl xl topomask yhv zz (PyTuple xs) = Inl IndexError"
    if "length xs < 2" for xs
    using that by (simp add: d date_label_def nth_err_def)
  show "plotPsi y z psi ci ttl xl topomask yhv zz (PyList xs) = Inl AssertionError" for xs
    by (simp add: d date_label_def)
  show "plotPsi y z psi ci ttl xl topomask yhv zz (PyStr str) = Inl AssertionError" for str
    by (simp add: d date_label_def)
  show "plot ci dset otsfn lbl \<noteq> Inr fig"
    if d: "(\<exists>xs. dates dset = PyList xs) \<or> (\<exists>str. dates dset = PyStr str)"
    for dset otsfn lbl fig
  proof
    assume "plot ci dset otsfn lbl = Inr fig"
    then obtain yy zf psi1 tm zs p1 where
      pp: "plotPsi yy zf psi1 ci ''a. Atlantic MOC [Sv]'' (Some (- 40, 90))
             (Some tm) (Some (yh dset)) (Some zs) (dates dset) = Inr p1"
      by (elim plot_fields) blast
    from d have dl: "date_label (dates dset) = Inl AssertionError"
      by (auto simp: date_label_def)
    from plotPsi_date_error [OF dl] obtain e' where
      "plotPsi yy zf psi1 ci ''a. Atlantic MOC [Sv]'' (Some (- 40, 90))
         (Some tm) (Some (yh dset)) (Some zs) (dates dset) = Inl e'"
      by blast
    with pp show False by simp
  qed
qed

text \<open>
  Instances, on a panel of two levels and two latitudes with three contour levels: a
  pair of years, a 1-tuple, a string, and a list in the dataset.
\<close>

theorem dates_check_witness:
  "(\<exists>p. plotPsi (array2 [[- 40, 26.7], [- 40, 26.7]]) (array2 [[- 100, - 100], [- 500, - 500]])
          (array2 [[Some 0, Some (- 2)], [Some (- 1), Some 0]]) [- 3, 0, 3] ''a'' None
          None None None (PyTuple [1990, 2000]) = Inr p \<and> datestring p = Some (1990, 2000)) \<and>
   plotPsi (array2 [[- 40, 26.7], [- 40, 26.7]]) (array2 [[- 100, - 100], [- 500, - 500]])
     (array2 [[Some 0, Some (- 2)], [Some (- 1), Some 0]]) [- 3, 0, 3] ''a'' None
     None None None (PyTuple [1990]) = Inl IndexError \<and>
   plotPsi (array2 [[- 40, 26.7], [- 40, 26.7]]) (array2 [[- 100, - 100], [- 500, - 500]])
     (array2 [[Some 0, Some (- 2)], [Some (- 1), Some 0]]) [- 3, 0, 3] ''a'' None
     None None None (PyStr ''1990-2000'') = Inl AssertionError \<and>
   (\<exists>e. plot [- 3, 0, 3] (ex_dset \<lparr>dates := PyList [1990, 2000]\<rparr>) ex_otsfn None = Inl e)"
proof -
  let ?y = "array2 [[- 40, 26.7], [- 40, 26.7 :: real]]"
  let ?z = "array2 [[- 100, - 100], [- 500, - 500 :: real]]"
  let ?psi = "array2 [[Some 0, Some (- 2)], [Some (- 1), Some (0 :: real)]]"
  have c: "contour_args ?y ?z ?psi [- 3, 0, 3] = Inr ()"
    by (simp add: contour_args_def contour_levels_def array2_def)
  have s: "shade None None None = Inr None"
    by (simp add: shade_def)
  note th = dates_check [OF c s, where ttl = "''a''" and xl = None]
  from th have a: "\<exists>p. plotPsi ?y ?z ?psi [- 3, 0, 3] ''a'' None
      None None None (PyTuple [1990, 2000]) = Inr p \<and> datestring p = Some (1990, 2000)"
    by (metis length_Cons list.size(3) nth_Cons_0 nth_Cons_Suc numeral_2_eq_2 One_nat_def order_refl)
  from th have b: "plotPsi ?y ?z ?psi [- 3, 0, 3] ''a'' None
      None None None (PyTuple [1990]) = Inl IndexError"
    by simp
  from th have d: "plotPsi ?y ?z ?psi [- 3, 0, 3] ''a'' None
      None None None (PyStr ''1990-2000'') = Inl AssertionError"
    by blast
  from th have "plot [- 3, 0, 3] (ex_dset \<lparr>dates := PyList [1990, 2000]\<rparr>) ex_otsfn None \<noteq> Inr fig"
    for fig
    by simp
  then have e: "\<exists>e. plot [- 3, 0, 3] (ex_dset \<lparr>dates := PyList [1990, 2000]\<rparr>) ex_otsfn None = Inl e"
    by (cases "plot [- 3, 0, 3] (ex_dset \<lparr>dates := PyList [1990, 2000]\<rparr>) ex_otsfn None") auto
  from a b d e show ?thesis by blast
qed

text \<open>
  The claim as stated has every value that is not a two-element sequence rejected by an
  assertion. On the same panel a tuple of three years is accepted, and a list of two
  years is rejected.
\<close>

theorem dates_two_element_counterexample:
  "map_sum id datestring
     (plotPsi (array2 [[- 40, 26.7], [- 40, 26.7]]) (array2 [[- 100, - 100], [- 500, - 500]])
        (array2 [[Some 0, Some (- 2)], [Some (- 1), Some 0]]) [- 3, 0, 3] ''a'' None
        None None None (PyTuple [1990, 2000, 2010])) = Inr (Some (1990, 2000)) \<and>
   map_sum id datestring
     (plotPsi (array2 [[- 40, 26.7], [- 40, 26.7]]) (array2 [[- 100, - 100], [- 500, - 500]])
        (array2 [[Some 0, Some (- 2)], [Some (- 1), Some 0]]) [- 3, 0, 3] ''a'' None
        None None None (PyList [1990, 2000])) = Inl AssertionError"
  by code_simp

lemma fill_masked_item:
  "item (fill_masked v psi) idx = (case item psi idx of None \<Rightarrow> v | Some x \<Rightarrow> Num x)"
  "shape (fill_masked v psi) = shape psi"
  by (simp_all add: fill_masked_def map_nd_def)

lemma getitem2_Inr:
  "getitem2 a i j = Inr b \<Longrightarrow> shape b = drop 2 (shape a) \<and> (\<forall>idx. item b idx = item a (i # j # idx))"
  by (auto simp: getitem2_def split: if_splits)

text \<open>
  Claim C10. When the panel plotter is given a topomask, the array it contours has 0
  in place of each masked cell of the streamfunction; only without a topomask the masked
  cells become NaN. Unmasked cells keep their value. \<^verbatim>\<open>plot\<close> gives a topomask to each
  of its three panels, so in every panel of a figure it returns the masked cells of the
  basin's streamfunction are contoured as zeros.
\<close>

theorem masked_cells_filled:
  "(\<forall>t p. plotPsi y z psi ci ttl xl (Some t) yhv zz ds = Inr p \<longrightarrow>
       shape (contour_data p) = shape psi \<and>
       (\<forall>idx. (item psi idx = None \<longrightarrow> item (contour_data p) idx = Num 0) \<and>
              (\<forall>v. item psi idx = Some v \<longrightarrow> item (contour_data p) idx = Num v))) \<and>
   (\<forall>p. plotPsi y z psi ci ttl xl None yhv zz ds = Inr p \<longrightarrow>
       shape (contour_data p) = shape psi \<and>
       (\<forall>idx. (item psi idx = None \<longrightarrow> item (contour_data p) idx = NaN) \<and>
              (\<forall>v. item psi idx = Some v \<longrightarrow> item (contour_data p) idx = Num v))) \<and>
   (\<forall>fig. plot ci dset otsfn lbl = Inr fig \<longrightarrow>
       length (panels fig) = 3 \<and>
       (\<forall>b<3. \<forall>idx.
          (item (to_masked_array otsfn) (0 # b # idx) = None \<longrightarrow>
             item (contour_data (panels fig ! b)) idx = Num 0) \<and>
          (\<forall>v. item (to_masked_array otsfn) (0 # b # idx) = Some v \<longrightarrow>
             item (contour_data (panels fig ! b)) idx = Num v)))"
proof (intro conjI allI impI)
  fix t p
  assume a: "plotPsi y z psi ci ttl xl (Some t) yhv zz ds = Inr p"
  show "shape (contour_data p) = shape psi"
    using plotPsi_Inr(3) [OF a] by (simp add: fill_masked_item)
  show "item (contour_data p) idx = Num 0" if "item psi idx = None" for idx
    using plotPsi_Inr(3) [OF a] that by (simp add: fill_masked_item)
  show "item (contour_data p) idx = Num v" if "item psi idx = Some v" for idx v
    using plotPsi_Inr(3) [OF a] that by (simp add: fill_masked_item)
next
  fix p
  assume a: "plotPsi y z psi ci ttl xl None yhv zz ds = Inr p"
  show "shape (contour_data p) = shape psi"
    using plotPsi_Inr(3) [OF a] by (simp add: fill_masked_item)
  show "item (contour_data p) idx = NaN" if "item psi idx = None" for idx
    using plotPsi_Inr(3) [OF a] that by (simp add: fill_masked_item)
  show "item (contour_data p) idx = Num v" if "item psi idx = Some v" for idx v
    using plotPsi_Inr(3) [OF a] that by (simp add: fill_masked_item)
next
  fix fig
  assume "plot ci dset otsfn lbl = Inr fig"
  then obtain yy zf tm1 tm2 tm3 zs psi1 psi2 psi3 p1 p2 p3 a1 a2 a3 b1 b2 c1 c2 c3 where
    g: "getitem2 (to_masked_array otsfn) 0 0 = Inr psi1"
       "getitem2 (to_masked_array otsfn) 0 1 = Inr psi2"
       "getitem2 (to_masked_array otsfn) 0 2 = Inr psi3" and
    q: "plotPsi yy zf psi1 ci ''a. Atlantic MOC [Sv]'' (Some (- 40, 90))
          (Some tm1) (Some (yh dset)) (Some zs) (dates dset) = Inr p1"
       "plotPsi yy zf psi2 ci ''b. Indo-Pacific MOC [Sv]'' (Some (- 40, 65))
          (Some tm2) (Some (yh dset)) (Some zs) PyNone = Inr p2"
       "plotPsi yy zf psi3 ci ''c. Global MOC [Sv]'' None
          (Some tm3) (Some (yh dset)) (Some zs) PyNone = Inr p3" and
    f: "fig = \<lparr>panels = [p1\<lparr>annotations := [a1, a2, a3]\<rparr>,
                          p2\<lparr>annotations := [b1, b2]\<rparr>,
                          p3\<lparr>annotations := [c1, c2, c3]\<rparr>],
               suptitle = lbl\<rparr>"
    by (elim plot_fields) blast
  show "length (panels fig) = 3" by (simp add: f)
  have c: "contour_data (panels fig ! b) = fill_masked (Num 0) ([psi1, psi2, psi3] ! b)"
    if "b < 3" for b
    using that plotPsi_Inr(3) [OF q(1)] plotPsi_Inr(3) [OF q(2)] plotPsi_Inr(3) [OF q(3)]
    by (auto simp: f less_Suc_eq numeral_3_eq_3)
  have i: "item ([psi1, psi2, psi3] ! b) idx = item (to_masked_array otsfn) (0 # b # idx)"
    if "b < 3" for b idx
    using that getitem2_Inr [OF g(1)] getitem2_Inr [OF g(2)] getitem2_Inr [OF g(3)]
    by (auto simp: less_Suc_eq numeral_3_eq_3 numeral_2_eq_2)
  show "item (contour_data (panels fig ! b)) idx = Num 0"
    if "b < 3" "item (to_masked_array otsfn) (0 # b # idx) = None" for b idx
    using that c i by (simp add: fill_masked_item)
  show "item (contour_data (panels fig ! b)) idx = Num v"
    if "b < 3" "item (to_masked_array otsfn) (0 # b # idx) = Some v" for b idx v
    using that c i by (simp add: fill_masked_item)
qed

text \<open>An instance: the figure of the example dataset, whose streamfunction has a missing cell.\<close>

theorem masked_cells_filled_witness:
  "\<exists>fig. plot [- 3, 0, 3] ex_dset ex_otsfn None = Inr fig \<and>
         item (to_masked_array ex_otsfn) [0, 0, 2, 0] = None \<and>
         item (contour_data (panels fig ! 0)) [2, 0] = Num 0 \<and>
         item (contour_data (panels fig ! 1)) [2, 1] = Num (- 8)"
proof -
  have "isl (plot [- 3, 0, 3] ex_dset ex_otsfn None) = False"
    by code_simp
  then obtain fig where p: "plot [- 3, 0, 3] ex_dset ex_otsfn None = Inr fig"
    by (cases "plot [- 3, 0, 3] ex_dset ex_otsfn None") auto
  have m: "item (to_masked_array ex_otsfn) [0, 0, 2, 0] = None"
          "item (to_masked_array ex_otsfn) [0, 1, 2, 1] = Some (- 8)"
    by (simp_all add: to_masked_array_def map_nd_def ex_otsfn_def ex_psi_def)
  note th = masked_cells_filled [where ci = "[- 3, 0, 3]" and dset = ex_dset and otsfn = ex_otsfn
      and lbl = None, THEN conjunct2, THEN conjunct2, THEN spec, THEN mp, OF p, THEN conjunct2]
  from th [THEN spec, of 0] m(1) have a: "item (contour_data (panels fig ! 0)) [2, 0] = Num 0"
    by simp
  from th [THEN spec, of 1] m(2) have b: "item (contour_data (panels fig ! 1)) [2, 1] = Num (- 8)"
    by simp
  from p m(1) a b show ?thesis by blast
qed

subsection \<open>The extrema annotation\<close>

text \<open>
  Claim C6. The number printed is the extremum of the streamfunction over the cells of
  the band below the depth threshold, but the marker is put at the first cell of the
  whole array that holds this value. Here the band from 26.5 to 27 degrees holds the
  values -2 and 0, and the value 0 also occurs at latitude -40: the marker is drawn at
  latitude -40, outside the band.
\<close>

theorem findExtrema_marks_outside_band:
  "findExtrema (array2 [[- 40, 26.7], [- 40, 26.7]])
               (array2 [[- 100, - 100], [- 500, - 500]])
               (array2 [[Some 0, Some (- 2)], [Some (- 1), Some 0]])
               26.5 27.0 0 1
     = Inr \<lparr>mark_y = - 40, mark_z = - 100, text_value = Num 0\<rparr>"
  by code_simp

subsection \<open>The coordinates of the panels\<close>

lemma foldl_max_Max: "foldl max (x::real) xs = Max (set (x # xs))"
proof -
  have "(\<lambda>a s. max s a) = (max :: real \<Rightarrow> real \<Rightarrow> real)"
    by (intro ext) (rule max.commute)
  then have "foldl max x xs = fold max xs x"
    by (simp add: foldl_conv_fold)
  also have "\<dots> = Max (set (x # xs))"
    by (rule Max.set_eq_fold [symmetric])
  finally show ?thesis .
qed

lemma foldl_min_Min: "foldl min (x::real) xs = Min (set (x # xs))"
proof -
  have "(\<lambda>a s. min s a) = (min :: real \<Rightarrow> real \<Rightarrow> real)"
    by (intro ext) (rule min.commute)
  then have "foldl min x xs = fold min xs x"
    by (simp add: foldl_conv_fold)
  also have "\<dots> = Min (set (x # xs))"
    by (rule Min.set_eq_fold [symmetric])
  finally show ?thesis .
qed

lemma max_list_Max: "xs \<noteq> [] \<Longrightarrow> max_list xs = Max (set xs)"
  by (cases xs) (simp_all add: max_list_def foldl_max_Max del: Max.insert)

lemma min_list_Min: "xs \<noteq> [] \<Longrightarrow> min_list xs = Min (set xs)"
  by (cases xs) (simp_all add: min_list_def foldl_min_Min del: Min.insert)

lemma max_list_upt: "0 < n \<Longrightarrow> max_list (map f [0..<n]) = Max (f ` {..<n})"
  by (simp add: max_list_Max atLeast0LessThan)

lemma min_list_upt: "0 < n \<Longrightarrow> min_list (map f [0..<n]) = Min (f ` {..<n})"
  by (simp add: min_list_Min atLeast0LessThan)

lemma reduce_last_Inr:
  assumes "reduce_last r a = Inr b"
  shows "shape b = butlast (shape a)" "0 < last (shape a)" "shape a \<noteq> []"
    "item b idx = r (map (\<lambda>i. item a (idx @ [i])) [0..<last (shape a)])"
  using assms by (auto simp: reduce_last_def split: if_splits)

lemma max_last_Inr:
  assumes "max_last a = Inr b"
  shows "shape b = butlast (shape a)" "0 < last (shape a)"
    "item b idx = Max ((\<lambda>i. item a (idx @ [i])) ` {..<last (shape a)})"
  using reduce_last_Inr [OF assms [unfolded max_last_def]]
  by (simp_all add: max_list_upt)

lemma min_last_Inr:
  assumes "min_last a = Inr b"
  shows "shape b = butlast (shape a)" "0 < last (shape a)"
    "item b idx = Min ((\<lambda>i. item a (idx @ [i])) ` {..<last (shape a)})"
  using reduce_last_Inr [OF assms [unfolded min_last_def]]
  by (simp_all add: min_list_upt)

lemma np_binop_Inr:
  assumes "np_binop f a b = Inr c"
  shows "broadcast_shapes (shape a) (shape b) = Some (shape c)"
    "item c idx = f (item a (bidx (shape a) idx)) (item b (bidx (shape b) idx))"
  using assms by (auto simp: np_binop_def split: option.splits)

lemma bidx2: "j < n \<Longrightarrow> i < m \<Longrightarrow> bidx [n, m] [j, i] = [j, i]"
  by (auto simp: bidx_def)

lemma bidx1: "i < m \<Longrightarrow> bidx [m] [k, i] = [i]"
  by (auto simp: bidx_def)

lemma broadcast_same2: "broadcast_shapes [n, m] [n, m] = Some [n, m]"
  by (simp add: broadcast_shapes_def)

lemma broadcast_row2: "broadcast_shapes [m] [n, m] = Some [n, m]"
  by (simp add: broadcast_shapes_def)

text \<open>
  Claim C8. \<^verbatim>\<open>plot\<close> leaves a 1-D \<^verbatim>\<open>zmod\<close> as it is and collapses any other by the
  minimum over its trailing dimension. For a grid of \<open>ny\<close> rows and \<open>nx\<close> columns with
  \<open>nk\<close> vertical levels, in every panel of the figure the horizontal coordinate at level
  \<open>k\<close> and row \<open>j\<close> is the maximum of \<open>geolat[j, :]\<close>, whatever the level, and the
  vertical coordinate is the minimum of \<open>zmod[k, j, :]\<close>.
\<close>

theorem coordinate_flattening:
  "(\<forall>z. flatten_z z0 = Inr z \<longrightarrow>
      (length (shape z0) = 1 \<longrightarrow> z = z0) \<and>
      (length (shape z0) \<noteq> 1 \<longrightarrow>
         shape z = butlast (shape z0) \<and>
         (\<forall>idx. item z idx = Min ((\<lambda>i. item z0 (idx @ [i])) ` {..<last (shape z0)})))) \<and>
   (\<forall>fig ny nx nk.
      plot ci dset otsfn lbl = Inr fig \<and> shape (vals (geolat dset)) = [ny, nx] \<and>
      shape (vals (zmod dset)) = [nk, ny, nx] \<longrightarrow>
      (\<forall>p \<in> set (panels fig).
         shape (contour_x p) = [nk, ny] \<and> shape (contour_y p) = [nk, ny] \<and>
         (\<forall>k<nk. \<forall>j<ny.
            item (contour_x p) [k, j]
              = Max ((\<lambda>i. item (vals (geolat dset)) [j, i]) ` {..<nx}) \<and>
            item (contour_y p) [k, j]
              = Min ((\<lambda>i. item (vals (zmod dset)) [k, j, i]) ` {..<nx}))))"
proof (intro conjI allI impI ballI)
  fix z
  assume f: "flatten_z z0 = Inr z"
  show "z = z0" if "length (shape z0) = 1"
    using f that by (simp add: flatten_z_def)
  {
    assume n: "length (shape z0) \<noteq> 1"
    with f have m: "min_last z0 = Inr z" by (simp add: flatten_z_def)
    show "shape z = butlast (shape z0)" by (rule min_last_Inr(1) [OF m])
    show "item z idx = Min ((\<lambda>i. item z0 (idx @ [i])) ` {..<last (shape z0)})" for idx
      by (rule min_last_Inr(3) [OF m])
  }
next
  fix fig ny nx nk p
  assume a: "plot ci dset otsfn lbl = Inr fig \<and> shape (vals (geolat dset)) = [ny, nx] \<and>
             shape (vals (zmod dset)) = [nk, ny, nx]"
     and pm: "p \<in> set (panels fig)"
  from a have sg: "shape (vals (geolat dset)) = [ny, nx]"
    and sz: "shape (vals (zmod dset)) = [nk, ny, nx]" by simp_all
  from a obtain yy z tm1 tm2 tm3 zs psi1 psi2 psi3 p1 p2 p3 a1 a2 a3 b1 b2 c1 c2 c3 where
    fz: "flatten_z (vals (zmod dset)) = Inr z" and
    fy: "plot_yy (vals (geolat dset)) z = Inr yy" and
    q: "plotPsi yy z psi1 ci ''a. Atlantic MOC [Sv]'' (Some (- 40, 90))
          (Some tm1) (Some (yh dset)) (Some zs) (dates dset) = Inr p1"
       "plotPsi yy z psi2 ci ''b. Indo-Pacific MOC [Sv]'' (Some (- 40, 65))
          (Some tm2) (Some (yh dset)) (Some zs) PyNone = Inr p2"
       "plotPsi yy z psi3 ci ''c. Global MOC [Sv]'' None
          (Some tm3) (Some (yh dset)) (Some zs) PyNone = Inr p3" and
    f: "fig = \<lparr>panels = [p1\<lparr>annotations := [a1, a2, a3]\<rparr>,
                          p2\<lparr>annotations := [b1, b2]\<rparr>,
                          p3\<lparr>annotations := [c1, c2, c3]\<rparr>],
               suptitle = lbl\<rparr>"
    by (elim conjE plot_fields) blast
  from pm have xy: "contour_x p = yy" "contour_y p = z"
    using plotPsi_Inr(1,2) [OF q(1)] plotPsi_Inr(1,2) [OF q(2)] plotPsi_Inr(1,2) [OF q(3)]
    by (auto simp: f)
  from fz sz have m: "min_last (vals (zmod dset)) = Inr z"
    by (simp add: flatten_z_def)
  have shz: "shape z = [nk, ny]"
    using min_last_Inr(1) [OF m] sz by simp
  have itz: "item z [k, j] = Min ((\<lambda>i. item (vals (zmod dset)) [k, j, i]) ` {..<nx})" for k j
    using min_last_Inr(3) [OF m, of "[k, j]"] sz by simp
  from fy obtain ymax where
    my: "max_last (vals (geolat dset)) = Inr ymax" and
    yb: "np_binop (\<lambda>a b. a + 0 * b) ymax z = Inr yy"
    by (auto simp: plot_yy_def slice2_def ebind_eq_Inr split: if_splits)
  have shy: "shape ymax = [ny]"
    using max_last_Inr(1) [OF my] sg by simp
  have ity: "item ymax [j] = Max ((\<lambda>i. item (vals (geolat dset)) [j, i]) ` {..<nx})" for j
    using max_last_Inr(3) [OF my, of "[j]"] sg by simp
  have shyy: "shape yy = [nk, ny]"
    using np_binop_Inr(1) [OF yb] shy shz by (simp add: broadcast_row2)
  have ityy: "item yy [k, j] = Max ((\<lambda>i. item (vals (geolat dset)) [j, i]) ` {..<nx})"
    if "j < ny" for k j
    using np_binop_Inr(2) [OF yb, of "[k, j]"] shy that by (simp add: bidx1 ity)
  show "shape (contour_x p) = [nk, ny]" by (simp add: xy shyy)
  show "shape (contour_y p) = [nk, ny]" by (simp add: xy shz)
  show "item (contour_x p) [k, j] = Max ((\<lambda>i. item (vals (geolat dset)) [j, i]) ` {..<nx})"
    if "k < nk" "j < ny" for k j
    using that by (simp add: xy ityy)
  show "item (contour_y p) [k, j] = Min ((\<lambda>i. item (vals (zmod dset)) [k, j, i]) ` {..<nx})"
    if "k < nk" "j < ny" for k j
    by (simp add: xy itz)
qed

text \<open>An instance: the figure of the example dataset.\<close>

lemma plot_three_panels: "plot ci dset otsfn lbl = Inr fig \<Longrightarrow> length (panels fig) = 3"
  by (elim plot_fields) simp

theorem coordinate_flattening_witness:
  "\<exists>fig. plot [- 3, 0, 3] ex_dset ex_otsfn None = Inr fig \<and>
         shape (contour_x (panels fig ! 0)) = [3, 2] \<and>
         item (contour_x (panels fig ! 0)) [2, 1] = 26.7 \<and>
         item (contour_y (panels fig ! 0)) [2, 1] = - 3000 \<and>
         item (contour_y (panels fig ! 0)) [1, 0] = - 500"
proof -
  have "isl (plot [- 3, 0, 3] ex_dset ex_otsfn None) = False"
    by code_simp
  then obtain fig where p: "plot [- 3, 0, 3] ex_dset ex_otsfn None = Inr fig"
    by (cases "plot [- 3, 0, 3] ex_dset ex_otsfn None") auto
  have sg: "shape (vals (geolat ex_dset)) = [2, 2]"
    and sz: "shape (vals (zmod ex_dset)) = [3, 2, 2]"
    by (simp_all add: ex_dset_def array2_def array3_def)
  have m: "panels fig ! 0 \<in> set (panels fig)"
    using plot_three_panels [OF p] by simp
  from p sg sz have h: "plot [- 3, 0, 3] ex_dset ex_otsfn None = Inr fig \<and>
      shape (vals (geolat ex_dset)) = [2, 2] \<and> shape (vals (zmod ex_dset)) = [3, 2, 2]"
    by simp
  note th = coordinate_flattening [where ci = "[- 3, 0, 3]" and dset = ex_dset and otsfn = ex_otsfn
      and lbl = None, THEN conjunct2, THEN spec, THEN spec, THEN spec, THEN spec, THEN mp,
      OF h, THEN bspec, OF m]
  from th have a: "shape (contour_x (panels fig ! 0)) = [3, 2]" by simp
  from th have q: "\<forall>k<3. \<forall>j<2.
      item (contour_x (panels fig ! 0)) [k, j]
        = Max ((\<lambda>i. item (vals (geolat ex_dset)) [j, i]) ` {..<2}) \<and>
      item (contour_y (panels fig ! 0)) [k, j]
        = Min ((\<lambda>i. item (vals (zmod ex_dset)) [k, j, i]) ` {..<2})"
    by simp
  have e: "{..<2::nat} = {0, 1}" by auto
  from q [THEN spec, of 2, THEN mp, THEN spec, of 1] have
    b: "item (contour_x (panels fig ! 0)) [2, 1] = 26.7"
       "item (contour_y (panels fig ! 0)) [2, 1] = - 3000"
    by (simp_all add: e ex_dset_def array2_def array3_def)
  from q [THEN spec, of 1, THEN mp, THEN spec, of 0] have
    c: "item (contour_y (panels fig ! 0)) [1, 0] = - 500"
    by (simp add: e ex_dset_def array2_def array3_def)
  from p a b c show ?thesis by blast
qed

subsection \<open>The topography mask\<close>

lemma np_binop_same2:
  assumes "shape a = [n, m]" "shape b = [n, m]"
  shows "\<exists>c. np_binop f a b = Inr c \<and> shape c = [n, m] \<and>
             (\<forall>j i. j < n \<and> i < m \<longrightarrow> item c [j, i] = f (item a [j, i]) (item b [j, i]))"
  using assms by (simp add: np_binop_def broadcast_same2 bidx2)

lemma tile_rows_1d:
  assumes "shape a = [m]"
  shows "\<exists>b. tile_rows a n = Inr b \<and> shape b = [n, m] \<and>
             (\<forall>k j. j < m \<longrightarrow> item b [k, j] = item a [j])"
  using assms by (simp add: tile_rows_def)

lemma max_last_2d:
  assumes "shape a = [n, m]" "0 < m"
  shows "\<exists>b. max_last a = Inr b \<and> shape b = [n] \<and>
             (\<forall>j. item b [j] = Max ((\<lambda>i. item a [j, i]) ` {..<m}))"
proof -
  from assms obtain b where b: "max_last a = Inr b"
    by (simp add: max_last_def reduce_last_def)
  from max_last_Inr(1) [OF b] max_last_Inr(3) [OF b] assms show ?thesis
    using b by simp
qed

lemma masked_where_same:
  assumes "shape c = shape a"
  shows "masked_where c a =
           Inr \<lparr>shape = shape a, item = (\<lambda>idx. if item c idx then None else Some (item a idx))\<rparr>"
  using assms by (simp add: masked_where_def)

lemma z_samples_length: "length z_samples = 71"
  by (simp add: z_samples_def)

lemma z_samples_nth: "k < 71 \<Longrightarrow> z_samples ! k = 100 * real k"
  by (simp add: z_samples_def)

text \<open>
  Claim C7, as amended. For a bathymetry of \<open>ny\<close> rows and \<open>nx > 0\<close> columns without
  missing values, a latitude axis of \<open>ny\<close> positions and, if one is given, a basin mask
  of the shape of the bathymetry, \<^verbatim>\<open>_create_topomask\<close> returns a masked array of 71
  rows and \<open>ny\<close> columns together with the sampled depths 0, 100, ..., 7000. The depth
  of a row is the maximum, across the trailing dimension, of the bathymetry with the
  cells outside the basin mask set to zero. The masked cells are exactly those whose
  sampled depth is less than the depth of their row, the cells above the sea floor; the
  cells at or below the sea floor are not masked, and they hold the value zero.
\<close>

theorem topomask_cells:
  assumes sd: "shape dep = [ny, nx]"
      and nx: "0 < nx"
      and ly: "length yv = ny"
      and sm: "\<forall>m. msk = Some m \<longrightarrow> shape (vals m) = [ny, nx]"
  shows "\<exists>tm. create_topomask dep yv msk = Inr (tm, map (\<lambda>k. 100 * real k) [0..<71]) \<and>
              shape tm = [71, ny] \<and>
              (\<forall>k j. k < 71 \<and> j < ny \<longrightarrow>
                 item tm [k, j] =
                   (if 100 * real k < Max ((\<lambda>i. case msk of
                                                   None \<Rightarrow> item dep [j, i]
                                                 | Some m \<Rightarrow> if item (vals m) [j, i] = 1
                                                             then item dep [j, i] else 0) ` {..<nx})
                    then None else Some 0))"
proof -
  let ?bd = "\<lambda>j i. case msk of None \<Rightarrow> item dep [j, i]
                 | Some m \<Rightarrow> if item (vals m) [j, i] = 1 then item dep [j, i] else 0"
  have "\<exists>dep'. (case msk of None \<Rightarrow> Inr dep
                | Some m \<Rightarrow> np_binop (\<lambda>mv d. if mv = 1 then d else 0) (vals m) dep) = Inr dep' \<and>
               shape dep' = [ny, nx] \<and>
               (\<forall>j i. j < ny \<and> i < nx \<longrightarrow> item dep' [j, i] = ?bd j i)"
  proof (cases msk)
    case None
    with sd show ?thesis by simp
  next
    case (Some m)
    with sm have "shape (vals m) = [ny, nx]" by simp
    from np_binop_same2 [OF this sd, of "\<lambda>mv d. if mv = 1 then d else 0"] Some
    show ?thesis by simp
  qed
  then obtain dep' where
    d: "(case msk of None \<Rightarrow> Inr dep
         | Some m \<Rightarrow> np_binop (\<lambda>mv d. if mv = 1 then d else 0) (vals m) dep) = Inr dep'" and
    sd': "shape dep' = [ny, nx]" and
    id': "\<And>j i. j < ny \<Longrightarrow> i < nx \<Longrightarrow> item dep' [j, i] = ?bd j i"
    by blast
  from max_last_2d [OF sd' nx] obtain rowmax where
    r: "max_last dep' = Inr rowmax" and
    sr: "shape rowmax = [ny]" and
    ir0: "\<And>j. item rowmax [j] = Max ((\<lambda>i. item dep' [j, i]) ` {..<nx})"
    by blast
  have ir: "item rowmax [j] = Max ((\<lambda>i. ?bd j i) ` {..<nx})" if "j < ny" for j
  proof -
    have "(\<lambda>i. item dep' [j, i]) ` {..<nx} = (\<lambda>i. ?bd j i) ` {..<nx}"
      using that by (intro image_cong) (simp_all add: id')
    with ir0 [of j] show ?thesis by simp
  qed
  from tile_rows_1d [OF sr, of "length z_samples"] obtain tiled where
    t: "tile_rows rowmax (length z_samples) = Inr tiled" and
    st: "shape tiled = [71, ny]" and
    it: "\<And>k j. j < ny \<Longrightarrow> item tiled [k, j] = item rowmax [j]"
    by (auto simp: z_samples_length)
  have smz: "shape (meshgrid_zz yv z_samples) = [71, ny]"
    by (simp add: meshgrid_zz_def z_samples_length ly)
  from np_binop_same2 [OF smz st, of "\<lambda>zv t. zv < t"] obtain cond where
    b: "np_binop (\<lambda>zv t. zv < t) (meshgrid_zz yv z_samples) tiled = Inr cond" and
    sc: "shape cond = [71, ny]" and
    ic0: "\<And>k j. k < 71 \<Longrightarrow> j < ny \<Longrightarrow>
            item cond [k, j] = (item (meshgrid_zz yv z_samples) [k, j] < item tiled [k, j])"
    by blast
  have ic: "item cond [k, j] = (100 * real k < item rowmax [j])" if "k < 71" "j < ny" for k j
    using ic0 [OF that] that by (simp add: meshgrid_zz_def z_samples_nth it)
  have w: "masked_where cond tiled =
             Inr \<lparr>shape = shape tiled,
                  item = (\<lambda>idx. if item cond idx then None else Some (item tiled idx))\<rparr>"
    by (rule masked_where_same) (simp add: sc st)
  let ?tm = "map_nd (map_option (\<lambda>v. v * 0))
               \<lparr>shape = shape tiled,
                item = (\<lambda>idx. if item cond idx then None else Some (item tiled idx))\<rparr>"
  have c: "create_topomask dep yv msk = Inr (?tm, z_samples)"
    unfolding create_topomask_def by (simp add: d r t b w)
  have z: "z_samples = map (\<lambda>k. 100 * real k) [0..<71]"
    by (simp add: z_samples_def)
  have s: "shape ?tm = [71, ny]"
    by (simp add: map_nd_def st)
  have cell: "item ?tm [k, j] = (if 100 * real k < Max ((\<lambda>i. ?bd j i) ` {..<nx})
                                  then None else Some 0)" if "k < 71" "j < ny" for k j
    using that by (simp add: map_nd_def ic ir)
  from c z s cell show ?thesis by auto
qed

text \<open>
  An instance: the bathymetry of the example dataset with the mask of its first basin.
  The first row lies in the basin and is 1000 deep, so that its cell is masked at the
  sample 900 and not at the sample 1000; the second row lies outside and has depth zero,
  so that its cell is not masked at the sample 0.
\<close>

theorem topomask_cells_witness:
  "\<exists>tm. create_topomask (array2 [[100, 1000], [500, 3000]]) [- 40, 26.7]
           (Some \<lparr>dims = [''yh'', ''xh''], vals = array2 [[1, 1], [0, 0]]\<rparr>)
         = Inr (tm, map (\<lambda>k. 100 * real k) [0..<71]) \<and>
        shape tm = [71, 2] \<and>
        item tm [9, 0] = None \<and> item tm [10, 0] = Some 0 \<and> item tm [0, 1] = Some 0"
proof -
  let ?dep = "array2 [[100, 1000], [500, 3000 :: real]]"
  let ?m = "\<lparr>dims = [''yh'', ''xh''], vals = array2 [[1, 1], [0, 0 :: real]]\<rparr>"
  have sd: "shape ?dep = [2, 2]" by (simp add: array2_def)
  have sm: "\<forall>m. Some ?m = Some m \<longrightarrow> shape (vals m) = [2, 2]" by (simp add: array2_def)
  have two: "{..<2::nat} = {0, 1}" by auto
  from topomask_cells [of ?dep 2 2 "[- 40, 26.7]" "Some ?m", OF sd _ _ sm]
  obtain tm where
    c: "create_topomask ?dep [- 40, 26.7] (Some ?m) = Inr (tm, map (\<lambda>k. 100 * real k) [0..<71])" and
    s: "shape tm = [71, 2]" and
    i: "\<And>k j. k < 71 \<Longrightarrow> j < 2 \<Longrightarrow>
          item tm [k, j] =
            (if 100 * real k < Max ((\<lambda>i. case Some ?m of
                                            None \<Rightarrow> item ?dep [j, i]
                                          | Some m \<Rightarrow> if item (vals m) [j, i] = 1
                                                      then item ?dep [j, i] else 0) ` {..<2})
             then None else Some 0)"
    by auto
  have "item tm [9, 0] = None"
    using i [of 9 0] by (simp add: two array2_def)
  moreover have "item tm [10, 0] = Some 0"
    using i [of 10 0] by (simp add: two array2_def)
  moreover have "item tm [0, 1] = Some 0"
    using i [of 0 1] by (simp add: two array2_def)
  ultimately show ?thesis using c s by blast
qed

text \<open>
  The claim as stated has the cells masked whose sampled depth exceeds the bathymetry.
  Over a sea floor at 150 the cell of the sample 0 is masked and the cell of the sample
  200 is not.
\<close>

theorem topomask_masks_above_floor_counterexample:
  "topomask_cell (create_topomask (array2 [[150]]) [0] None) [0, 0] = Inr None \<and>
   topomask_cell (create_topomask (array2 [[150]]) [0] None) [2, 0] = Inr (Some 0)"
  by code_simp

subsection \<open>An annotation without cells\<close>












end
